theory Spec2Isabelle
  imports Complex_Main "HOL-Library.Word" "HOL-Library.Sublist"
begin

text \<open>
  The request orchestration of the retinal OCT analyzer: the backoff retrier, the remote
  analysis client with its four calls and its confidence gate, the mapping verifier, and
  the batch loop and the refinement handler of the application component. Each function
  of the source is a function here; what the source takes from the browser, the language
  and the remote model is a parameter (the \<open>platform\<close>), and the effects of awaiting are
  passed along as a world.
\<close>

section \<open>Values of the host language\<close>

text \<open>
  Strings are lists of characters. An optional value (\<open>string | undefined\<close>, an optional
  field or parameter) is an \<open>option\<close>, with \<open>None\<close> for \<open>undefined\<close> and \<open>null\<close>.
  A condition such as \<open>if (resultId)\<close> tests truthiness: an absent string and the empty
  string are both falsy.
\<close>

definition truthy :: "string option \<Rightarrow> bool" where
  "truthy s = (case s of None \<Rightarrow> False | Some x \<Rightarrow> x \<noteq> [])"

text \<open>\<open>s.includes(t)\<close>: \<open>t\<close> occurs in \<open>s\<close> as a contiguous run of characters.\<close>

fun includesStr :: "string \<Rightarrow> string \<Rightarrow> bool" where
  "includesStr [] t = (t = [])"
| "includesStr (c # cs) t = (prefix t (c # cs) \<or> includesStr cs t)"

text \<open>\<open>s.toLowerCase()\<close> on the ASCII letters; every other character is kept.\<close>

definition lowerChar :: "char \<Rightarrow> char" where
  "lowerChar c =
     (case map_of (zip ''ABCDEFGHIJKLMNOPQRSTUVWXYZ'' ''abcdefghijklmnopqrstuvwxyz'') c of
        None \<Rightarrow> c
      | Some l \<Rightarrow> l)"

definition toLowerCase :: "string \<Rightarrow> string" where
  "toLowerCase s = map lowerChar s"

text \<open>The decimal text of a number, as string interpolation prints an integer.\<close>

fun decimal :: "nat \<Rightarrow> string" where
  "decimal n =
     (if n < 10 then [''0123456789'' ! n]
      else decimal (n div 10) @ [''0123456789'' ! (n mod 10)])"

declare decimal.simps [simp del]

definition showInt :: "int \<Rightarrow> string" where
  "showInt i = (if i < 0 then CHR ''-'' # decimal (nat (- i)) else decimal (nat i))"

text \<open>
  An error object, with its name and its message; \<open>new Error(m)\<close> has the name \<open>Error\<close> and
  the message \<open>m\<close>. What an operation rejects with is taken to be such an object.
\<close>

record jserror =
  name :: string
  message :: string

definition newError :: "string \<Rightarrow> jserror" where
  "newError m = \<lparr>name = ''Error'', message = m\<rparr>"

text \<open>
  A Number is not-a-number, an infinity, or a finite value. Only the order of a parsed
  confidence against the threshold is used, so finite values are kept as rationals.
\<close>

datatype number = NaN | NegInfinity | Finite rat | PosInfinity

fun isNaN :: "number \<Rightarrow> bool" where
  "isNaN NaN = True"
| "isNaN _ = False"

text \<open>\<open>a < b\<close> on Numbers; any comparison with not-a-number is false.\<close>

fun numLess :: "number \<Rightarrow> number \<Rightarrow> bool" where
  "numLess NaN _ = False"
| "numLess _ NaN = False"
| "numLess NegInfinity b = (b \<noteq> NegInfinity)"
| "numLess (Finite x) (Finite y) = (x < y)"
| "numLess (Finite x) PosInfinity = True"
| "numLess (Finite x) NegInfinity = False"
| "numLess PosInfinity _ = False"

section \<open>Data model (types.ts)\<close>

type_synonym byte = "8 word"

text \<open>A \<open>File\<close>: its size is the number of its bytes.\<close>

record File =
  fileName :: string
  fileType :: string
  lastModified :: int
  bytes :: "byte list"

definition fileSize :: "File \<Rightarrow> nat" where
  "fileSize f = length (bytes f)"

record AnalysisResult =
  diagnosis :: string
  confidence :: string
  explanation :: string
  explainability :: string
  uncertaintyStatement :: string
  segmentationUncertaintyStatement :: string
  anomalyReport :: "string option"
  processedId :: "string option"
  processedHash :: "string option"
  timestampBackend :: "string option"

datatype ImageStatus = Pending | Loading | Success | Error

datatype MappingStatus = Unverified | Verified | Mismatch

record AnalyzableImage =
  image_id :: string
  imageFile :: File
  hash :: "string option"
  previewUrl :: string
  status :: ImageStatus
  mappingStatus :: MappingStatus
  result :: "AnalysisResult option"
  error :: "string option"
  segmentedImageUrl :: "string option"
  heatmapImageUrl :: "string option"
  segmentationUncertaintyMapUrl :: "string option"

section \<open>The remote capability and the platform\<close>

text \<open>
  A request to the remote model. The prose of each prompt is fixed by the source; what
  varies is kept: which of the four instructions it is, the verification id and the
  refinement text interpolated into it.
\<close>

datatype instruction =
    SegmentationMap
  | SegmentationUncertaintyMap
  | Classification "string option" "string option"
  | Heatmap "string option"

datatype responseFormat = ImageModality | JsonSchema

record imagePart =
  inlineBase64 :: "string option"
  mimeType :: string

record request =
  model :: string
  image :: imagePart
  prompt :: instruction
  config :: responseFormat

text \<open>
  A response: its text, and for each candidate the parts of its content. A part either
  carries \<open>inlineData\<close> (whose \<open>data\<close> may be missing) or does not.
\<close>

datatype part = InlineData "string option" | OtherPart

record response =
  responseText :: "string option"
  responseCandidates :: "part list list"

text \<open>
  What the code takes from its platform, as parameters. \<open>'w\<close> is the state of everything
  outside the program (the remote service, the clock, the user); an awaited operation
  takes the world and returns the world it settled in, so whatever else happened during
  the wait is part of that step. The operations of the platform are taken to settle; a
  promise of the program's own that is never resolved is modelled as such (see
  \<open>fileToGenerativePart\<close>).
  \<^item> \<open>subtle\<close>: \<open>window.crypto.subtle.digest('SHA-256', _)\<close>, absent outside a secure context;
  \<^item> \<open>apiKey\<close>: \<open>process.env.API_KEY\<close>;
  \<^item> \<open>generateContent\<close>: \<open>ai.models.generateContent\<close>, resolving or rejecting;
  \<^item> \<open>setTimeout\<close>: waiting for a delay in milliseconds;
  \<^item> \<open>readAsDataURL\<close>: \<open>reader.result\<close> when \<open>onloadend\<close> fires: the data URL, or \<open>null\<close> when the
    read failed;
  \<^item> \<open>arrayBuffer\<close>: \<open>file.arrayBuffer()\<close>, resolving to the bytes read or rejecting;
  \<^item> \<open>barrier\<close>: the four calls of an analysis run concurrently, each from the world in which
    they were created. Given that world and the worlds in which the four ended, the
    platform tells in which order they settled (by their indices 0 to 3) and the world in
    which the join settles;
  \<^item> \<open>isoNow\<close>: \<open>new Date().toISOString()\<close>;
  \<^item> \<open>jsonParse\<close>: \<open>JSON.parse\<close> read at the type \<open>AnalysisResult\<close>, \<open>None\<close> where it throws;
  \<^item> \<open>parseFloat\<close>: the built-in of that name;
  \<^item> \<open>newAbortController\<close>, \<open>abort\<close>, \<open>aborted\<close>: creating a controller, signalling it and
    reading its signal's flag; controllers are named by numbers.
\<close>

record 'w platform =
  subtle :: "(byte list \<Rightarrow> byte list) option"
  apiKey :: "string option"
  generateContent :: "request \<Rightarrow> 'w \<Rightarrow> (jserror + response) \<times> 'w"
  setTimeout :: "nat \<Rightarrow> 'w \<Rightarrow> 'w"
  readAsDataURL :: "File \<Rightarrow> 'w \<Rightarrow> string option \<times> 'w"
  arrayBuffer :: "File \<Rightarrow> 'w \<Rightarrow> (jserror + byte list) \<times> 'w"
  barrier :: "'w \<Rightarrow> 'w list \<Rightarrow> nat list \<times> 'w"
  isoNow :: "'w \<Rightarrow> string"
  jsonParse :: "string \<Rightarrow> AnalysisResult option"
  parseFloat :: "string \<Rightarrow> number"
  newAbortController :: "'w \<Rightarrow> nat \<times> 'w"
  abort :: "nat \<Rightarrow> 'w \<Rightarrow> 'w"
  aborted :: "nat \<Rightarrow> 'w \<Rightarrow> bool"

section \<open>utils/fileHelpers.ts\<close>

definition hexDigit :: "nat \<Rightarrow> char" where
  "hexDigit n = ''0123456789abcdef'' ! n"

text \<open>\<open>b.toString(16).padStart(2, '0')\<close> for a byte.\<close>

definition hexByte :: "byte \<Rightarrow> string" where
  "hexByte b = [hexDigit (unat b div 16), hexDigit (unat b mod 16)]"

text \<open>The fingerprint \<open>generateFileHash\<close> resolves to, on the bytes of the file.\<close>

definition generateFileHash :: "'w platform \<Rightarrow> File \<Rightarrow> string" where
  "generateFileHash p f =
     (case subtle p of
        None \<Rightarrow> fileName f @ ''-'' @ decimal (fileSize f) @ ''-'' @ showInt (lastModified f)
      | Some digest \<Rightarrow> concat (map hexByte (digest (bytes f))))"

text \<open>
  The call of \<open>generateFileHash\<close> with its await of \<open>file.arrayBuffer()\<close>: outside a secure
  context it resolves at once to the fallback; otherwise it rejects when the read rejects
  and resolves to the hexadecimal digest of the bytes read.
\<close>

definition awaitFileHash :: "'w platform \<Rightarrow> File \<Rightarrow> 'w \<Rightarrow> (jserror + string) \<times> 'w" where
  "awaitFileHash p f w =
     (case subtle p of
        None \<Rightarrow>
          (Inr (fileName f @ ''-'' @ decimal (fileSize f) @ ''-'' @ showInt (lastModified f)), w)
      | Some digest \<Rightarrow>
          (case arrayBuffer p f w of
             (Inl e, w') \<Rightarrow> (Inl e, w')
           | (Inr buffer, w') \<Rightarrow> (Inr (concat (map hexByte (digest buffer))), w')))"

text \<open>\<open>debugRequest\<close> awaits the fingerprint and returns what it logs.\<close>

record DebugInfo =
  info_id :: string
  info_name :: string
  info_size :: nat
  info_type :: string
  info_lastModified :: int
  info_hash :: string
  info_timestamp :: string

definition debugRequest ::
  "'w platform \<Rightarrow> File \<Rightarrow> string \<Rightarrow> 'w \<Rightarrow> (jserror + DebugInfo) \<times> 'w" where
  "debugRequest p f i w =
     (case awaitFileHash p f w of
        (Inl e, w') \<Rightarrow> (Inl e, w')
      | (Inr h, w') \<Rightarrow>
          (Inr \<lparr>info_id = i, info_name = fileName f, info_size = fileSize f,
                info_type = fileType f, info_lastModified = lastModified f, info_hash = h,
                info_timestamp = isoNow p w'\<rparr>, w'))"

section \<open>utils/verifyMapping.ts\<close>

text \<open>
  The verifier computes the fingerprint only when a backend hash is given; its verdict is
  given here on the bytes of the file.
\<close>

definition verifyMapping ::
  "'w platform \<Rightarrow> AnalyzableImage \<Rightarrow> string option \<Rightarrow> string option \<Rightarrow> bool" where
  "verifyMapping p img resultId backendHash =
     (if truthy resultId \<and> resultId \<noteq> Some (image_id img) then False
      else if truthy backendHash \<and> Some (generateFileHash p (imageFile img)) \<noteq> backendHash
        then False
      else True)"

section \<open>services/geminiService.ts\<close>

text \<open>\<open>s.split(sep)\<close> for a separator of one character.\<close>

fun splitOn :: "char \<Rightarrow> string \<Rightarrow> string list" where
  "splitOn sep [] = [[]]"
| "splitOn sep (c # cs) =
     (if c = sep then [] # splitOn sep cs
      else (let r = splitOn sep cs in (c # hd r) # tl r))"

text \<open>
  The promise of \<open>fileToGenerativePart\<close> is resolved in the reader's \<open>onloadend\<close> callback,
  with the field of index 1 of the data URL split at its commas (a URL with no comma has
  no such field). When the read failed the reader's result is \<open>null\<close>, the callback throws
  before it resolves, and the promise never settles: the outcome \<open>None\<close>.
\<close>

definition fileToGenerativePart :: "'w platform \<Rightarrow> File \<Rightarrow> 'w \<Rightarrow> imagePart option \<times> 'w" where
  "fileToGenerativePart p f w =
     (let (readerResult, w') = readAsDataURL p f w
      in (case readerResult of
            None \<Rightarrow> None
          | Some url \<Rightarrow>
              (let fields = splitOn CHR '','' url
               in Some \<lparr>inlineBase64 = (if 1 < length fields then Some (fields ! 1) else None),
                         mimeType = fileType f\<rparr>),
          w'))"

text \<open>A caught value is an error object or something else.\<close>

datatype thrown = ErrorValue jserror | OtherValue

fun parseApiError :: "thrown \<Rightarrow> string" where
  "parseApiError (ErrorValue err) =
     (let msg = toLowerCase (message err) in
      if includesStr msg ''api key not valid'' then
        ''Invalid API Key. Please ensure your API key is correctly configured in your environment variables.''
      else if includesStr msg ''quota'' \<or> includesStr msg ''rate limit'' then
        ''API Quota Exceeded. Please wait a moment before trying again.''
      else if includesStr msg ''blocked'' \<or> includesStr msg ''safety'' then
        ''Content Safety Error. The request was blocked due to safety settings.''
      else if includesStr msg ''server error'' \<or> includesStr msg ''500'' then
        ''AI Service Unavailable. Please try again later.''
      else if includesStr msg ''abort'' \<or> name err = ''AbortError'' then
        ''Request cancelled by user.''
      else message err)"
| "parseApiError OtherValue = ''An unexpected error occurred during the analysis.''"

definition firstPart :: "response \<Rightarrow> part option" where
  "firstPart r =
     (case responseCandidates r of
        [] \<Rightarrow> None
      | c # _ \<Rightarrow> (case c of [] \<Rightarrow> None | x # _ \<Rightarrow> Some x))"

definition extractImageFromResponse :: "response \<Rightarrow> string \<Rightarrow> jserror + string" where
  "extractImageFromResponse r errorContext =
     (case firstPart r of
        Some (InlineData (Some d)) \<Rightarrow>
          if d \<noteq> [] then Inr d
          else Inl (newError (errorContext @ '' or received empty image data.''))
      | _ \<Rightarrow> Inl (newError (errorContext @ '' or received empty image data.'')))"

text \<open>
  An asynchronous operation is a function from the world to its outcome (\<open>Inl\<close> the error
  it rejects with, \<open>Inr\<close> the value it resolves to) and the world it settled in.
  \<open>retries\<close> is a count (the source only ever uses its default, 3) and \<open>delay\<close> a number of
  milliseconds; \<open>sleep\<close> is the platform's timer.
\<close>

fun retryWithBackoff ::
  "(nat \<Rightarrow> 'w \<Rightarrow> 'w) \<Rightarrow> ('w \<Rightarrow> (jserror + 'a) \<times> 'w) \<Rightarrow> nat \<Rightarrow> nat \<Rightarrow> 'w \<Rightarrow> (jserror + 'a) \<times> 'w"
where
  "retryWithBackoff sleep fn retries delay w =
     (case fn w of
        (Inr v, w') \<Rightarrow> (Inr v, w')
      | (Inl err, w') \<Rightarrow>
          if retries = 0 \<or> name err = ''AbortError'' then (Inl err, w')
          else
            (let msg = toLowerCase (message err) in
             if includesStr msg ''quota'' \<or> includesStr msg ''rate limit''
                \<or> includesStr msg ''server error'' \<or> includesStr msg ''unavailable''
             then retryWithBackoff sleep fn (retries - 1) (delay * 2) (sleep delay w')
             else (Inl err, w')))"

declare retryWithBackoff.simps [simp del]

text \<open>\<open>signal?.aborted\<close>: a signal is the reading of its flag in the world, or absent.\<close>

definition signalAborted :: "('w \<Rightarrow> bool) option \<Rightarrow> 'w \<Rightarrow> bool" where
  "signalAborted signal w = (case signal of None \<Rightarrow> False | Some flag \<Rightarrow> flag w)"

definition makeRequest ::
  "('w \<Rightarrow> bool) option \<Rightarrow> ('w \<Rightarrow> (jserror + 'a) \<times> 'w) \<Rightarrow> 'w \<Rightarrow> (jserror + 'a) \<times> 'w" where
  "makeRequest signal fn w =
     (if signalAborted signal w then (Inl (newError ''Request cancelled''), w) else fn w)"

text \<open>One of the four calls: \<open>retryWithBackoff(() => makeRequest(() => generateContent(req)))\<close>.\<close>

definition subCall ::
  "'w platform \<Rightarrow> ('w \<Rightarrow> bool) option \<Rightarrow> request \<Rightarrow> 'w \<Rightarrow> (jserror + response) \<times> 'w" where
  "subCall p signal req =
     retryWithBackoff (setTimeout p) (makeRequest signal (generateContent p req)) 3 1000"

text \<open>
  \<open>refinementFeedback ? Promise.resolve(null) : call\<close>: a call that is skipped in refinement
  mode resolves to \<open>null\<close> at once.
\<close>

definition unlessRefining ::
  "string option \<Rightarrow> ('w \<Rightarrow> (jserror + response) \<times> 'w) \<Rightarrow> 'w
     \<Rightarrow> (jserror + response option) \<times> 'w" where
  "unlessRefining refinementFeedback call w =
     (if truthy refinementFeedback then (Inr None, w)
      else (case call w of (Inl e, w') \<Rightarrow> (Inl e, w') | (Inr r, w') \<Rightarrow> (Inr (Some r), w')))"

text \<open>
  The four requests. The refinement text is interpolated into the classification and the
  heatmap prompt when it is truthy.
\<close>

definition segmentationRequest :: "imagePart \<Rightarrow> request" where
  "segmentationRequest imagePart =
     \<lparr>model = ''gemini-2.5-flash-image'', image = imagePart, prompt = SegmentationMap,
      config = ImageModality\<rparr>"

definition segmentationUncertaintyRequest :: "imagePart \<Rightarrow> request" where
  "segmentationUncertaintyRequest imagePart =
     \<lparr>model = ''gemini-2.5-flash-image'', image = imagePart,
      prompt = SegmentationUncertaintyMap, config = ImageModality\<rparr>"

definition classificationRequest :: "imagePart \<Rightarrow> string option \<Rightarrow> string option \<Rightarrow> request" where
  "classificationRequest imagePart debugId refinementFeedback =
     \<lparr>model = ''gemini-3-pro-preview'', image = imagePart,
      prompt = Classification debugId
                 (if truthy refinementFeedback then refinementFeedback else None),
      config = JsonSchema\<rparr>"

definition heatmapRequest :: "imagePart \<Rightarrow> string option \<Rightarrow> request" where
  "heatmapRequest imagePart refinementFeedback =
     \<lparr>model = ''gemini-2.5-flash-image'', image = imagePart,
      prompt = Heatmap (if truthy refinementFeedback then refinementFeedback else None),
      config = ImageModality\<rparr>"

text \<open>JavaScript's white space among the ASCII characters, and \<open>s.trim()\<close>.\<close>

definition isSpace :: "char \<Rightarrow> bool" where
  "isSpace c = (of_char c \<in> {9, 10, 11, 12, 13, 32 :: nat})"

definition trim :: "string \<Rightarrow> string" where
  "trim s = rev (dropWhile isSpace (rev (dropWhile isSpace s)))"

text \<open>
  The confidence check of \<open>analyzeImage\<close> (post-processing of the parsed result), with the
  built-in \<open>parseFloat\<close> as \<open>parse\<close>.
\<close>

definition CONFIDENCE_THRESHOLD :: number where
  "CONFIDENCE_THRESHOLD = Finite 70"

definition confidenceCheck :: "(string \<Rightarrow> number) \<Rightarrow> AnalysisResult \<Rightarrow> AnalysisResult" where
  "confidenceCheck parse analysisResult =
     (let confidenceValue = parse (confidence analysisResult) in
      if \<not> isNaN confidenceValue \<and> numLess confidenceValue CONFIDENCE_THRESHOLD then
        (let original = diagnosis analysisResult in
         analysisResult
           \<lparr>diagnosis := ''Requires Further Review'',
            uncertaintyStatement :=
              ''**Low Confidence ('' @ confidence analysisResult @ '')**: Initial finding ''
              @ [CHR 0x27] @ original @ [CHR 0x27] @ ''. Requires review. ''
              @ uncertaintyStatement analysisResult\<rparr>)
      else analysisResult)"

record AnalysisOutput =
  analysis :: AnalysisResult
  segmentedImageBase64 :: "string option"
  heatmapImageBase64 :: string
  segmentationUncertaintyMapBase64 :: "string option"

text \<open>
  \<open>Promise.all\<close> over the four calls resolves to the four values when all four resolve, and
  otherwise rejects with the rejection that came first in time. \<open>order\<close> lists the indices
  of the calls in the order they settled; the first rejected call it names gives the error,
  and a rejected call it does not name comes after those it names, in the order of creation.
\<close>

definition firstRejection :: "nat list \<Rightarrow> jserror option list \<Rightarrow> jserror option" where
  "firstRejection order rejections =
     (case filter (\<lambda>i. i < length rejections \<and> rejections ! i \<noteq> None)
             (order @ [0 ..< length rejections]) of
        [] \<Rightarrow> None
      | i # _ \<Rightarrow> rejections ! i)"

definition rejection :: "jserror + 'a \<Rightarrow> jserror option" where
  "rejection r = (case r of Inl e \<Rightarrow> Some e | Inr _ \<Rightarrow> None)"

definition promiseAll ::
  "nat list \<Rightarrow> jserror + 'a \<Rightarrow> jserror + 'b \<Rightarrow> jserror + 'c \<Rightarrow> jserror + 'd
     \<Rightarrow> jserror + ('a \<times> 'b \<times> 'c \<times> 'd)" where
  "promiseAll order a b c d =
     (case firstRejection order [rejection a, rejection b, rejection c, rejection d] of
        Some e \<Rightarrow> Inl e
      | None \<Rightarrow>
          (case a of Inl e \<Rightarrow> Inl e | Inr x \<Rightarrow>
           (case b of Inl e \<Rightarrow> Inl e | Inr y \<Rightarrow>
            (case c of Inl e \<Rightarrow> Inl e | Inr z \<Rightarrow>
             (case d of Inl e \<Rightarrow> Inl e | Inr u \<Rightarrow> Inr (x, y, z, u))))))"

text \<open>What follows the join: from the four responses to the returned value.\<close>

definition interpretResponses ::
  "'w platform \<Rightarrow> string option \<Rightarrow> 'w \<Rightarrow> response option \<Rightarrow> response option \<Rightarrow> response
     \<Rightarrow> response \<Rightarrow> jserror + AnalysisOutput" where
  "interpretResponses p debugId w segResp segUncertResp classResp heatResp =
     (let classificationText = map_option trim (responseText classResp) in
      if \<not> truthy classificationText then Inl (newError ''Empty classification response.'')
      else
        (case jsonParse p (the classificationText) of
           None \<Rightarrow> Inl (newError ''Invalid JSON response from AI.'')
         | Some parsed \<Rightarrow>
             (let checked = confidenceCheck (parseFloat p) parsed;
                  analysisResult =
                    (if truthy debugId then checked\<lparr>timestampBackend := Some (isoNow p w)\<rparr>
                     else checked)
              in case extractImageFromResponse heatResp ''Heatmap generation failed'' of
                   Inl e \<Rightarrow> Inl e
                 | Inr heatData \<Rightarrow>
                     (case (segResp, segUncertResp) of
                        (Some seg, Some segUncert) \<Rightarrow>
                          (case extractImageFromResponse seg ''Segmentation failed'' of
                             Inl e \<Rightarrow> Inl e
                           | Inr segData \<Rightarrow>
                               (case extractImageFromResponse segUncert ''Uncertainty map failed'' of
                                  Inl e \<Rightarrow> Inl e
                                | Inr segUncertData \<Rightarrow>
                                    Inr \<lparr>analysis = analysisResult,
                                         segmentedImageBase64 = Some segData,
                                         heatmapImageBase64 = heatData,
                                         segmentationUncertaintyMapBase64 = Some segUncertData\<rparr>))
                      | _ \<Rightarrow>
                          Inr \<lparr>analysis = analysisResult,
                               segmentedImageBase64 = None,
                               heatmapImageBase64 = heatData,
                               segmentationUncertaintyMapBase64 = None\<rparr>))))"

text \<open>
  The body of the \<open>try\<close> block of \<open>analyzeImage\<close>. Its outcome is \<open>None\<close> when it awaits a
  promise that never settles, and otherwise the error it throws or the value it returns.

  After the image is encoded the four calls are created one after the other with no await
  in between, so each of them makes its first cancellation check and its first dispatch in
  the world \<open>w0\<close> in which the encoding settled. From there each call runs on its own, its
  waits absorbing whatever the others do meanwhile; the barrier gives the order in which
  they settled and the world \<open>wj\<close> in which \<open>Promise.all\<close> settles.
\<close>

definition analyzeImageTry ::
  "'w platform \<Rightarrow> File \<Rightarrow> string option \<Rightarrow> string option \<Rightarrow> ('w \<Rightarrow> bool) option \<Rightarrow> 'w
     \<Rightarrow> (jserror + AnalysisOutput) option \<times> 'w" where
  "analyzeImageTry p f refinementFeedback debugId signal w =
     (case fileToGenerativePart p f w of
        (None, w0) \<Rightarrow> (None, w0)
      | (Some imagePart, w0) \<Rightarrow>
          (let (segmentation, w1) =
                 unlessRefining refinementFeedback
                   (subCall p signal (segmentationRequest imagePart)) w0;
               (segmentationUncertainty, w2) =
                 unlessRefining refinementFeedback
                   (subCall p signal (segmentationUncertaintyRequest imagePart)) w0;
               (classification, w3) =
                 subCall p signal (classificationRequest imagePart debugId refinementFeedback) w0;
               (heatmap, w4) =
                 subCall p signal (heatmapRequest imagePart refinementFeedback) w0;
               (order, wj) = barrier p w0 [w1, w2, w3, w4]
           in case promiseAll order segmentation segmentationUncertainty classification heatmap of
                Inl e \<Rightarrow> (Some (Inl e), wj)
              | Inr (segResp, segUncertResp, classResp, heatResp) \<Rightarrow>
                  if signalAborted signal wj then (Some (Inl (newError ''Request cancelled'')), wj)
                  else (Some (interpretResponses p debugId wj segResp segUncertResp classResp
                                heatResp), wj)))"

definition analyzeImage ::
  "'w platform \<Rightarrow> File \<Rightarrow> string option \<Rightarrow> string option \<Rightarrow> ('w \<Rightarrow> bool) option \<Rightarrow> 'w
     \<Rightarrow> (jserror + AnalysisOutput) option \<times> 'w" where
  "analyzeImage p f refinementFeedback debugId signal w =
     (if \<not> truthy (apiKey p) then
        (Some (Inl (newError ''API Key Not Found. Please configure API_KEY.'')), w)
      else if signalAborted signal w then (Some (Inl (newError ''Request cancelled'')), w)
      else
        (case analyzeImageTry p f refinementFeedback debugId signal w of
           (None, w') \<Rightarrow> (None, w')
         | (Some (Inl err), w') \<Rightarrow> (Some (Inl (newError (parseApiError (ErrorValue err)))), w')
         | (Some (Inr out), w') \<Rightarrow> (Some (Inr out), w')))"

section \<open>App.tsx\<close>

text \<open>
  The component's state: the item collection, the running flag, the banner error and the
  reference to the controller of the active batch run.
\<close>

record AppState =
  images :: "AnalyzableImage list"
  isAnalyzing :: bool
  appError :: "string option"
  abortControllerRef :: "nat option"

text \<open>\<open>setImages(prev => f(prev))\<close>: a functional update of the collection.\<close>

definition setImages ::
  "(AnalyzableImage list \<Rightarrow> AnalyzableImage list) \<Rightarrow> AppState \<Rightarrow> AppState" where
  "setImages f app = app\<lparr>images := f (images app)\<rparr>"

definition dataUrl :: "string \<Rightarrow> string" where
  "dataUrl b = ''data:image/jpeg;base64,'' @ b"

text \<open>The state update of a completed round trip (step 4 of the loop).\<close>

definition applySuccess ::
  "AnalyzableImage \<Rightarrow> AnalysisOutput \<Rightarrow> MappingStatus \<Rightarrow> AnalyzableImage \<Rightarrow> AnalyzableImage" where
  "applySuccess img res mapping i =
     (if image_id i \<noteq> image_id img then i
      else i\<lparr>status := Success,
             mappingStatus := mapping,
             result := Some (analysis res),
             segmentedImageUrl :=
               (if truthy (segmentedImageBase64 res)
                then Some (dataUrl (the (segmentedImageBase64 res)))
                else segmentedImageUrl i),
             heatmapImageUrl := Some (dataUrl (heatmapImageBase64 res)),
             segmentationUncertaintyMapUrl :=
               (if truthy (segmentationUncertaintyMapBase64 res)
                then Some (dataUrl (the (segmentationUncertaintyMapBase64 res)))
                else segmentationUncertaintyMapUrl i),
             error := None\<rparr>)"

text \<open>The state update of a failed round trip, in the loop and in refinement alike.\<close>

definition applyFailure :: "string \<Rightarrow> jserror \<Rightarrow> AnalyzableImage \<Rightarrow> AnalyzableImage" where
  "applyFailure i err img =
     (if image_id img = i then img\<lparr>status := Error, error := Some (message err)\<rparr> else img)"

text \<open>
  A handler that awaits either runs to its end, or stays for ever at an await that never
  settles; each carries the state of the component and the world reached.
\<close>

datatype 's completion = Completed 's | Stalled 's

text \<open>
  The \<open>for\<close> loop of \<open>runAnalysisLoop\<close> over the candidates, under the controller of this
  run. \<open>debugRequest\<close>, \<open>analyzeImage\<close> and the verifier are awaited inside the \<open>try\<close>, so a
  rejection of any of them is caught by the one \<open>catch\<close>. The verifier is called with
  \<open>undefined\<close> for the backend hash.
\<close>

fun analysisLoop ::
  "'w platform \<Rightarrow> nat \<Rightarrow> AnalyzableImage list \<Rightarrow> AppState \<times> 'w
     \<Rightarrow> (AppState \<times> 'w) completion" where
  "analysisLoop p controller [] (app, w) = Completed (app, w)"
| "analysisLoop p controller (img # rest) (app, w) =
     (if aborted p controller w then Completed (app, w)
      else
        (case debugRequest p (imageFile img) (image_id img) w of
           (Inl err, w1) \<Rightarrow>
             if message err = ''Request cancelled'' then Completed (app, w1)
             else analysisLoop p controller rest
                    (setImages (map (applyFailure (image_id img) err)) app, w1)
         | (Inr info, w1) \<Rightarrow>
             (case analyzeImage p (imageFile img) None (Some (image_id img))
                     (Some (aborted p controller)) w1 of
                (None, w') \<Rightarrow> Stalled (app, w')
              | (Some (Inr res), w') \<Rightarrow>
                  (let isVerified = verifyMapping p img (processedId (analysis res)) None;
                       mapping = (if isVerified then Verified else Mismatch)
                   in analysisLoop p controller rest
                        (setImages (map (applySuccess img res mapping)) app, w'))
              | (Some (Inl err), w') \<Rightarrow>
                  if message err = ''Request cancelled'' then Completed (app, w')
                  else analysisLoop p controller rest
                         (setImages (map (applyFailure (image_id img) err)) app, w'))))"

definition runAnalysisLoop ::
  "'w platform \<Rightarrow> AnalyzableImage list \<Rightarrow> AppState \<times> 'w \<Rightarrow> (AppState \<times> 'w) completion" where
  "runAnalysisLoop p candidates s =
     (let (app, w) = s;
          w1 = (case abortControllerRef app of None \<Rightarrow> w | Some c \<Rightarrow> abort p c w);
          (controller, w2) = newAbortController p w1;
          app1 = app\<lparr>abortControllerRef := Some controller, isAnalyzing := True,
                     appError := None\<rparr>;
          app2 = setImages (map (\<lambda>img.
                   if list_ex (\<lambda>c. image_id c = image_id img) candidates
                   then img\<lparr>status := Loading, error := None, mappingStatus := Unverified\<rparr>
                   else img)) app1
      in case analysisLoop p controller candidates (app2, w2) of
           Completed (app3, w3) \<Rightarrow>
             Completed (app3\<lparr>isAnalyzing := False, abortControllerRef := None\<rparr>, w3)
         | Stalled s3 \<Rightarrow> Stalled s3)"

definition handleAnalyzeAll :: "'w platform \<Rightarrow> AppState \<times> 'w \<Rightarrow> (AppState \<times> 'w) completion" where
  "handleAnalyzeAll p s =
     (let imagesToAnalyze = filter (\<lambda>img. status img = Pending) (images (fst s)) in
      if 0 < length imagesToAnalyze then runAnalysisLoop p imagesToAnalyze s else Completed s)"

definition handleRetryFailed :: "'w platform \<Rightarrow> AppState \<times> 'w \<Rightarrow> (AppState \<times> 'w) completion" where
  "handleRetryFailed p s =
     (let failedImages = filter (\<lambda>img. status img = Error) (images (fst s)) in
      if 0 < length failedImages then runAnalysisLoop p failedImages s else Completed s)"

text \<open>
  The two state updates of a refinement: on entry and on success. The handler looks the
  item up in the collection it was created with, taken here to be the current one, and
  calls \<open>analyzeImage\<close> with no signal. Nothing follows the state update after its await, so
  the handler is given by the state it leaves: when the analysis never settles, that is
  the state after the update on entry.
\<close>

definition refineLoading :: "string \<Rightarrow> AnalyzableImage \<Rightarrow> AnalyzableImage" where
  "refineLoading i img =
     (if image_id img = i then img\<lparr>status := Loading, error := None\<rparr> else img)"

definition refineSuccess :: "string \<Rightarrow> AnalysisOutput \<Rightarrow> AnalyzableImage \<Rightarrow> AnalyzableImage" where
  "refineSuccess i res img =
     (if image_id img \<noteq> i then img
      else img\<lparr>status := Success,
               result := Some (analysis res),
               heatmapImageUrl := Some (dataUrl (heatmapImageBase64 res)),
               error := None\<rparr>)"

definition handleRefineAnalysis ::
  "'w platform \<Rightarrow> string \<Rightarrow> string \<Rightarrow> AppState \<times> 'w \<Rightarrow> AppState \<times> 'w" where
  "handleRefineAnalysis p i feedback s =
     (let (app, w) = s in
      case find (\<lambda>img. image_id img = i) (images app) of
        None \<Rightarrow> (app, w)
      | Some imageToRefine \<Rightarrow>
          (let app1 = setImages (map (refineLoading i)) app in
           case analyzeImage p (imageFile imageToRefine) (Some feedback) (Some i) None w of
             (None, w') \<Rightarrow> (app1, w')
           | (Some (Inr res), w') \<Rightarrow> (setImages (map (refineSuccess i res)) app1, w')
           | (Some (Inl err), w') \<Rightarrow> (setImages (map (applyFailure i err)) app1, w')))"

section \<open>components/AnalysisResults.tsx\<close>

text \<open>
  \<open>handleRefineSubmit\<close>: the refinement handler is called with the text of the form as it
  is, and only when that text is not blank (the state of the form itself is left out). It
  is the only caller of the handler, so the only refinement text \<open>analyzeImage\<close> is ever
  given is a non-empty string.
\<close>

definition handleRefineSubmit ::
  "'w platform \<Rightarrow> string \<Rightarrow> string \<Rightarrow> AppState \<times> 'w \<Rightarrow> AppState \<times> 'w" where
  "handleRefineSubmit p i refinementText s =
     (if truthy (Some (trim refinementText)) then handleRefineAnalysis p i refinementText s
      else s)"

section \<open>Observing a run\<close>

text \<open>
  To count how often an operation is executed, which delays are waited and which requests
  reach the remote model, a world is wrapped with a record of what happened. The wrapped
  operations behave as the originals do on the inner world.
\<close>

record ('w, 'o) probe =
  inner :: 'w
  observed :: "'o list"
  waited :: "nat list"

definition probe0 :: "'w \<Rightarrow> ('w, 'o) probe" where
  "probe0 w = \<lparr>inner = w, observed = [], waited = []\<rparr>"

text \<open>Each execution of \<open>fn\<close> records what \<open>obs\<close> reads in the world it starts in.\<close>

definition observe ::
  "('w \<Rightarrow> 'o) \<Rightarrow> ('w \<Rightarrow> 'r \<times> 'w) \<Rightarrow> ('w, 'o) probe \<Rightarrow> 'r \<times> ('w, 'o) probe" where
  "observe obs fn pr =
     (let (r, w') = fn (inner pr)
      in (r, pr\<lparr>inner := w', observed := observed pr @ [obs (inner pr)]\<rparr>))"

text \<open>Each execution of \<open>fn\<close> is counted: the observation is the unit value.\<close>

definition counted :: "('w \<Rightarrow> 'r \<times> 'w) \<Rightarrow> ('w, unit) probe \<Rightarrow> 'r \<times> ('w, unit) probe" where
  "counted fn = observe (\<lambda>w. ()) fn"

text \<open>Each wait records its delay.\<close>

definition timed :: "(nat \<Rightarrow> 'w \<Rightarrow> 'w) \<Rightarrow> nat \<Rightarrow> ('w, 'o) probe \<Rightarrow> ('w, 'o) probe" where
  "timed sleep d pr = pr\<lparr>inner := sleep d (inner pr), waited := waited pr @ [d]\<rparr>"

text \<open>A signal read through the wrapper.\<close>

definition probed :: "('w \<Rightarrow> bool) option \<Rightarrow> (('w, 'o) probe \<Rightarrow> bool) option" where
  "probed signal = map_option (\<lambda>flag pr. flag (inner pr)) signal"

text \<open>
  The record of several concurrent runs that started from \<open>pr0\<close>: what each of them added
  to the record of \<open>pr0\<close>, one run after the other.
\<close>

definition joinProbes :: "'w \<Rightarrow> ('w, 'o) probe \<Rightarrow> ('w, 'o) probe list \<Rightarrow> ('w, 'o) probe" where
  "joinProbes w' pr0 prs =
     \<lparr>inner = w',
      observed = observed pr0 @ concat (map (\<lambda>pr. drop (length (observed pr0)) (observed pr)) prs),
      waited = waited pr0 @ concat (map (\<lambda>pr. drop (length (waited pr0)) (waited pr)) prs)\<rparr>"

text \<open>A platform whose remote model records every request it is sent.\<close>

definition instrument :: "'w platform \<Rightarrow> ('w, request) probe platform" where
  "instrument p =
     \<lparr>subtle = subtle p,
      apiKey = apiKey p,
      generateContent = (\<lambda>req. observe (\<lambda>w. req) (generateContent p req)),
      setTimeout = timed (setTimeout p),
      readAsDataURL = (\<lambda>f pr. let (url, w') = readAsDataURL p f (inner pr)
                              in (url, pr\<lparr>inner := w'\<rparr>)),
      arrayBuffer = (\<lambda>f pr. let (buffer, w') = arrayBuffer p f (inner pr)
                            in (buffer, pr\<lparr>inner := w'\<rparr>)),
      barrier = (\<lambda>pr0 prs. let (order, w') = barrier p (inner pr0) (map inner prs)
                            in (order, joinProbes w' pr0 prs)),
      isoNow = (\<lambda>pr. isoNow p (inner pr)),
      jsonParse = jsonParse p,
      parseFloat = parseFloat p,
      newAbortController = (\<lambda>pr. let (c, w') = newAbortController p (inner pr)
                                 in (c, pr\<lparr>inner := w'\<rparr>)),
      abort = (\<lambda>c pr. pr\<lparr>inner := abort p c (inner pr)\<rparr>),
      aborted = (\<lambda>c pr. aborted p c (inner pr))\<rparr>"

section \<open>Vocabulary of the properties\<close>

text \<open>The message mentions a marker, whatever the case of its letters.\<close>

definition mentions :: "string \<Rightarrow> string \<Rightarrow> bool" where
  "mentions msg marker = includesStr (toLowerCase msg) marker"

text \<open>The message carries one of the four markers of a transient failure.\<close>

definition transient :: "jserror \<Rightarrow> bool" where
  "transient err =
     (mentions (message err) ''quota'' \<or> mentions (message err) ''rate limit''
      \<or> mentions (message err) ''server error'' \<or> mentions (message err) ''unavailable'')"

text \<open>
  The record of a run of \<open>retryWithBackoff\<close> from the world \<open>w\<close>: one observation for each
  execution of \<open>fn\<close>, and the delays waited, in order.
\<close>

definition retryRun ::
  "(nat \<Rightarrow> 'w \<Rightarrow> 'w) \<Rightarrow> ('w \<Rightarrow> (jserror + 'a) \<times> 'w) \<Rightarrow> nat \<Rightarrow> nat \<Rightarrow> 'w
     \<Rightarrow> ('w, unit) probe" where
  "retryRun sleep fn retries delay w =
     snd (retryWithBackoff (timed sleep) (counted fn) retries delay (probe0 w))"

section \<open>A simulated platform\<close>

text \<open>
  A small platform on which the definitions can be run: the remote model answers each
  instruction from a script of replies for it (and is unavailable when the script has
  none), the clock counts the milliseconds waited, every read succeeds, the calls settle
  in the order they were created, and a classification body of the form
  \<open>diagnosis|confidence|processedId\<close> stands for the JSON text.
\<close>

record sim =
  replies :: "(instruction \<times> (jserror + response)) list"
  elapsed :: nat
  cancelled :: "nat list"
  created :: nat

definition isDigit :: "char \<Rightarrow> bool" where
  "isDigit c = (48 \<le> (of_char c :: nat) \<and> (of_char c :: nat) \<le> 57)"

definition simParseFloat :: "string \<Rightarrow> number" where
  "simParseFloat s =
     (let ds = takeWhile isDigit s in
      if ds = [] then NaN
      else Finite (of_nat (foldl (\<lambda>a c. 10 * a + (of_char c - 48)) 0 ds)))"

definition simJson :: "string \<Rightarrow> AnalysisResult option" where
  "simJson t =
     (let fields = splitOn CHR ''|'' t in
      if length fields = 3 then
        Some \<lparr>diagnosis = fields ! 0, confidence = fields ! 1, explanation = [],
              explainability = [], uncertaintyStatement = ''Borderline.'',
              segmentationUncertaintyStatement = [], anomalyReport = None,
              processedId = (if fields ! 2 = [] then None else Some (fields ! 2)),
              processedHash = None, timestampBackend = None\<rparr>
      else None)"

definition simGenerate :: "request \<Rightarrow> sim \<Rightarrow> (jserror + response) \<times> sim" where
  "simGenerate req w =
     (case map_of (replies w) (prompt req) of
        None \<Rightarrow> (Inl (newError ''503 Service Unavailable''), w)
      | Some r \<Rightarrow> (r, w\<lparr>replies := remove1 (prompt req, r) (replies w)\<rparr>))"

definition simSleep :: "nat \<Rightarrow> sim \<Rightarrow> sim" where
  "simSleep d w = w\<lparr>elapsed := elapsed w + d\<rparr>"

definition simAborted :: "nat \<Rightarrow> sim \<Rightarrow> bool" where
  "simAborted c w = (c \<in> set (cancelled w))"

text \<open>
  The world in which the join settles: the replies no call has consumed, the longest
  wait, and every controller signalled meanwhile.
\<close>

definition simBarrier :: "sim \<Rightarrow> sim list \<Rightarrow> nat list \<times> sim" where
  "simBarrier w0 ws =
     ([0, 1, 2, 3],
      \<lparr>replies = filter (\<lambda>e. list_all (\<lambda>w. e \<in> set (replies w)) ws) (replies w0),
       elapsed = fold max (map elapsed ws) (elapsed w0),
       cancelled = remdups (concat (map cancelled ws) @ cancelled w0),
       created = created w0\<rparr>)"

definition simPlatform :: "sim platform" where
  "simPlatform =
     \<lparr>subtle = None,
      apiKey = Some ''key'',
      generateContent = simGenerate,
      setTimeout = simSleep,
      readAsDataURL = (\<lambda>f w. (Some (''data:'' @ fileType f @ '';base64,AAAA''), w)),
      arrayBuffer = (\<lambda>f w. (Inr (bytes f), w)),
      barrier = simBarrier,
      isoNow = (\<lambda>w. decimal (elapsed w)),
      jsonParse = simJson,
      parseFloat = simParseFloat,
      newAbortController = (\<lambda>w. (created w, w\<lparr>created := created w + 1\<rparr>)),
      abort = (\<lambda>c w. w\<lparr>cancelled := c # cancelled w\<rparr>),
      aborted = simAborted\<rparr>"

definition sim0 :: "(instruction \<times> (jserror + response)) list \<Rightarrow> sim" where
  "sim0 rs = \<lparr>replies = rs, elapsed = 0, cancelled = [], created = 0\<rparr>"

definition file1 :: File where
  "file1 = \<lparr>fileName = ''scan.png'', fileType = ''image/png'', lastModified = 1700000000000,
            bytes = [1, 2, 3]\<rparr>"

definition img1 :: AnalyzableImage where
  "img1 = \<lparr>image_id = ''img-1'', imageFile = file1, hash = None, previewUrl = ''blob:1'',
           status = Pending, mappingStatus = Unverified, result = None, error = None,
           segmentedImageUrl = None, heatmapImageUrl = None,
           segmentationUncertaintyMapUrl = None\<rparr>"

text \<open>Operations that always fail, on a world with nothing in it, and a timer that does nothing.\<close>

definition alwaysQuota :: "unit \<Rightarrow> (jserror + unit) \<times> unit" where
  "alwaysQuota w = (Inl (newError ''Quota exceeded''), w)"

definition invalidKey :: "unit \<Rightarrow> (jserror + unit) \<times> unit" where
  "invalidKey w = (Inl (newError ''API key not valid''), w)"

definition abortQuotaError :: jserror where
  "abortQuotaError = \<lparr>name = ''AbortError'', message = ''Quota exceeded''\<rparr>"

definition abortQuota :: "unit \<Rightarrow> (jserror + unit) \<times> unit" where
  "abortQuota w = (Inl abortQuotaError, w)"

definition noSleep :: "nat \<Rightarrow> unit \<Rightarrow> unit" where
  "noSleep d w = w"

definition imageRequest :: request where
  "imageRequest =
     \<lparr>model = ''gemini-2.5-flash-image'',
      image = \<lparr>inlineBase64 = Some ''AAAA'', mimeType = ''image/png''\<rparr>,
      prompt = Heatmap None, config = ImageModality\<rparr>"

text \<open>A world in which controller 0 is already signalled, and a wait during which it is.\<close>

definition cancelledSim :: sim where
  "cancelledSim = \<lparr>replies = [], elapsed = 0, cancelled = [0], created = 1\<rparr>"

definition abortingSleep :: "nat \<Rightarrow> sim \<Rightarrow> sim" where
  "abortingSleep d w = w\<lparr>elapsed := elapsed w + d, cancelled := 0 # cancelled w\<rparr>"

text \<open>Scripted replies of the remote model, and the values the runs below produce.\<close>

definition imageResponse :: "string \<Rightarrow> response" where
  "imageResponse d = \<lparr>responseText = None, responseCandidates = [[InlineData (Some d)]]\<rparr>"

definition textResponse :: "string \<Rightarrow> response" where
  "textResponse t = \<lparr>responseText = Some t, responseCandidates = []\<rparr>"

definition focus :: string where
  "focus = ''Focus on the subretinal fluid.''"

text \<open>The script of a first analysis of the item \<open>img-1\<close> whose classification body is \<open>body\<close>.\<close>

definition scriptFor :: "string \<Rightarrow> (instruction \<times> (jserror + response)) list" where
  "scriptFor body =
     [(SegmentationMap, Inr (imageResponse ''SEG'')),
      (SegmentationUncertaintyMap, Inr (imageResponse ''UNC'')),
      (Classification (Some ''img-1'') None, Inr (textResponse body)),
      (Heatmap None, Inr (imageResponse ''HEAT''))]"

definition batchReplies :: "(instruction \<times> (jserror + response)) list" where
  "batchReplies = scriptFor '' CNV|65%|img-1 ''"

definition parsed65 :: AnalysisResult where
  "parsed65 =
     \<lparr>diagnosis = ''CNV'', confidence = ''65%'', explanation = [], explainability = [],
      uncertaintyStatement = ''Borderline.'', segmentationUncertaintyStatement = [],
      anomalyReport = None, processedId = Some ''img-1'', processedHash = None,
      timestampBackend = None\<rparr>"

definition batchOutput :: AnalysisOutput where
  "batchOutput =
     \<lparr>analysis = (confidenceCheck simParseFloat parsed65)\<lparr>timestampBackend := Some ''0''\<rparr>,
      segmentedImageBase64 = Some ''SEG'', heatmapImageBase64 = ''HEAT'',
      segmentationUncertaintyMapBase64 = Some ''UNC''\<rparr>"



definition refineReplies :: "(instruction \<times> (jserror + response)) list" where
  "refineReplies =
     [(Classification (Some ''img-1'') (Some focus), Inr (textResponse ''DME|85%|img-1'')),
      (Heatmap (Some focus), Inr (imageResponse ''HEAT2''))]"

definition parsed85 :: AnalysisResult where
  "parsed85 =
     \<lparr>diagnosis = ''DME'', confidence = ''85%'', explanation = [], explainability = [],
      uncertaintyStatement = ''Borderline.'', segmentationUncertaintyStatement = [],
      anomalyReport = None, processedId = Some ''img-1'', processedHash = None,
      timestampBackend = Some ''0''\<rparr>"

definition refineOutput :: AnalysisOutput where
  "refineOutput =
     \<lparr>analysis = parsed85, segmentedImageBase64 = None, heatmapImageBase64 = ''HEAT2'',
      segmentationUncertaintyMapBase64 = None\<rparr>"

definition cancelPlatform :: "sim platform" where
  "cancelPlatform = simPlatform\<lparr>setTimeout := abortingSleep\<rparr>"

text \<open>
  A remote model whose every call is aborted in transit, a platform without the credential,
  and one on which no file can be read.
\<close>

definition abortError :: jserror where
  "abortError = \<lparr>name = ''AbortError'', message = ''The user aborted a request.''\<rparr>"

definition abortedRemote :: "sim platform" where
  "abortedRemote = simPlatform\<lparr>generateContent := (\<lambda>req w. (Inl abortError, w))\<rparr>"

definition noKeyPlatform :: "sim platform" where
  "noKeyPlatform = simPlatform\<lparr>apiKey := None\<rparr>"

definition unreadablePlatform :: "sim platform" where
  "unreadablePlatform = simPlatform\<lparr>readAsDataURL := (\<lambda>f w. (None, w))\<rparr>"

text \<open>The encoded image of \<open>file1\<close>, what a debug request of it logs, and further outputs.\<close>

definition part1 :: imagePart where
  "part1 = \<lparr>inlineBase64 = Some ''AAAA'', mimeType = ''image/png''\<rparr>"

definition debugInfo1 :: DebugInfo where
  "debugInfo1 =
     \<lparr>info_id = ''img-1'', info_name = ''scan.png'', info_size = 3, info_type = ''image/png'',
      info_lastModified = 1700000000000, info_hash = ''scan.png-3-1700000000000'',
      info_timestamp = ''0''\<rparr>"

definition passed :: "string \<Rightarrow> AnalysisOutput" where
  "passed c =
     \<lparr>analysis = parsed65\<lparr>confidence := c, timestampBackend := Some ''0''\<rparr>,
      segmentedImageBase64 = Some ''SEG'', heatmapImageBase64 = ''HEAT'',
      segmentationUncertaintyMapBase64 = Some ''UNC''\<rparr>"

definition crossOutput :: AnalysisOutput where
  "crossOutput =
     \<lparr>analysis = parsed65\<lparr>confidence := ''85%'', processedId := Some ''img-9'',
                           timestampBackend := Some ''0''\<rparr>,
      segmentedImageBase64 = Some ''SEG'', heatmapImageBase64 = ''HEAT'',
      segmentationUncertaintyMapBase64 = Some ''UNC''\<rparr>"

definition silentOutput :: AnalysisOutput where
  "silentOutput =
     \<lparr>analysis = parsed65\<lparr>confidence := ''85%'', processedId := None,
                           timestampBackend := Some ''0''\<rparr>,
      segmentedImageBase64 = Some ''SEG'', heatmapImageBase64 = ''HEAT'',
      segmentationUncertaintyMapBase64 = Some ''UNC''\<rparr>"


text \<open>A remote model during whose every call the controller 0 is signalled.\<close>

definition raisingRemote :: "sim platform" where
  "raisingRemote =
     simPlatform\<lparr>generateContent :=
       (\<lambda>req w. case simGenerate req w of
                   (r, w') \<Rightarrow> (r, w'\<lparr>cancelled := 0 # cancelled w'\<rparr>))\<rparr>"

definition img2 :: AnalyzableImage where
  "img2 = img1\<lparr>image_id := ''img-2'', previewUrl := ''blob:2''\<rparr>"

definition analysed1 :: AnalyzableImage where
  "analysed1 =
     img1\<lparr>status := Success, mappingStatus := Verified,
          result := Some (analysis batchOutput),
          segmentedImageUrl := Some (dataUrl ''SEG''),
          heatmapImageUrl := Some (dataUrl ''HEAT''),
          segmentationUncertaintyMapUrl := Some (dataUrl ''UNC'')\<rparr>"

definition app1 :: AppState where
  "app1 = \<lparr>images = [img1, img2], isAnalyzing = True, appError = None,
           abortControllerRef = Some 0\<rparr>"

definition app2 :: AppState where
  "app2 = \<lparr>images = [analysed1, img2], isAnalyzing = False, appError = None,
           abortControllerRef = None\<rparr>"

section \<open>Evaluation lemmas\<close>

lemma decimal_small: "n < 10 \<Longrightarrow> decimal n = [''0123456789'' ! n]"
  by (simp add: decimal.simps)

lemma decimal_large:
  "10 \<le> n \<Longrightarrow> decimal n = decimal (n div 10) @ [''0123456789'' ! (n mod 10)]"
  by (subst decimal.simps) simp


section \<open>The mapping verifier\<close>




section \<open>The backoff retrier\<close>

lemma retry_resolved:
  "fn w = (Inr v, w') \<Longrightarrow> retryWithBackoff sleep fn retries delay w = (Inr v, w')"
  by (subst retryWithBackoff.simps) simp

lemma retry_rethrown:
  "fn w = (Inl err, w') \<Longrightarrow> retries = 0 \<or> name err = ''AbortError'' \<or> \<not> transient err
     \<Longrightarrow> retryWithBackoff sleep fn retries delay w = (Inl err, w')"
  by (subst retryWithBackoff.simps) (auto simp: transient_def mentions_def Let_def)

lemma retry_again:
  "fn w = (Inl err, w') \<Longrightarrow> 0 < retries \<Longrightarrow> name err \<noteq> ''AbortError'' \<Longrightarrow> transient err
     \<Longrightarrow> retryWithBackoff sleep fn retries delay w
         = retryWithBackoff sleep fn (retries - 1) (delay * 2) (sleep delay w')"
  by (subst retryWithBackoff.simps) (auto simp: transient_def mentions_def Let_def)

lemma observe_sel:
  "fst (observe obs fn pr) = fst (fn (inner pr))"
  "inner (snd (observe obs fn pr)) = snd (fn (inner pr))"
  "observed (snd (observe obs fn pr)) = observed pr @ [obs (inner pr)]"
  "waited (snd (observe obs fn pr)) = waited pr"
  by (simp_all add: observe_def split: prod.splits)

lemma timed_sel:
  "inner (timed sleep d pr) = sleep d (inner pr)"
  "observed (timed sleep d pr) = observed pr"
  "waited (timed sleep d pr) = waited pr @ [d]"
  by (simp_all add: timed_def)

lemma observe_result:
  "fn (inner pr) = (r, w')
     \<Longrightarrow> observe obs fn pr = (r, pr\<lparr>inner := w', observed := observed pr @ [obs (inner pr)]\<rparr>)"
  by (simp add: observe_def)

lemma map_backoff_Suc:
  "map (\<lambda>i. d * 2 ^ i) [0..<Suc m] = (d :: nat) # map (\<lambda>i. (d * 2) * 2 ^ i) [0..<m]"
proof -
  have "[0..<Suc m] = 0 # map Suc [0..<m]"
    by (simp add: upt_conv_Cons map_Suc_upt del: upt_Suc)
  then show ?thesis by (simp add: comp_def del: upt_Suc)
qed

lemma retry_probe_shape:
  "\<exists>n \<le> retries.
     length (observed (snd (retryWithBackoff (timed sleep) (observe obs fn) retries delay pr)))
       = length (observed pr) + Suc n
     \<and> waited (snd (retryWithBackoff (timed sleep) (observe obs fn) retries delay pr))
       = waited pr @ map (\<lambda>i. delay * 2 ^ i) [0..<n]"
proof (induction retries arbitrary: delay pr)
  case 0
  obtain r w' where fn: "fn (inner pr) = (r, w')" by (cases "fn (inner pr)")
  let ?pr1 = "pr\<lparr>inner := w', observed := observed pr @ [obs (inner pr)]\<rparr>"
  from fn have ob: "observe obs fn pr = (r, ?pr1)"
    by (simp add: observe_result)
  show ?case
  proof (cases r)
    case (Inl err)
    with ob show ?thesis
      by (simp add: retry_rethrown [where fn = "observe obs fn" and w = pr])
  next
    case (Inr v)
    with ob show ?thesis
      by (simp add: retry_resolved [where fn = "observe obs fn" and w = pr])
  qed
next
  case (Suc retries)
  obtain r w' where fn: "fn (inner pr) = (r, w')" by (cases "fn (inner pr)")
  let ?pr1 = "pr\<lparr>inner := w', observed := observed pr @ [obs (inner pr)]\<rparr>"
  from fn have ob: "observe obs fn pr = (r, ?pr1)"
    by (simp add: observe_result)
  show ?case
  proof (cases r)
    case (Inr v)
    with ob have "retryWithBackoff (timed sleep) (observe obs fn) (Suc retries) delay pr
        = (Inr v, ?pr1)"
      by (simp add: retry_resolved [where fn = "observe obs fn" and w = pr])
    then show ?thesis by (intro exI [of _ 0]) simp
  next
    case (Inl err)
    show ?thesis
    proof (cases "name err \<noteq> ''AbortError'' \<and> transient err")
      case False
      with ob Inl have "retryWithBackoff (timed sleep) (observe obs fn) (Suc retries) delay pr
          = (Inl err, ?pr1)"
        by (intro retry_rethrown [where fn = "observe obs fn" and w = pr]) auto
      then show ?thesis by (intro exI [of _ 0]) simp
    next
      case True
      let ?pr2 = "timed sleep delay ?pr1"
      from ob Inl True
      have step: "retryWithBackoff (timed sleep) (observe obs fn) (Suc retries) delay pr
          = retryWithBackoff (timed sleep) (observe obs fn) retries (delay * 2) ?pr2"
        using retry_again [where fn = "observe obs fn" and w = pr and err = err
            and retries = "Suc retries" and sleep = "timed sleep" and delay = delay
            and w' = ?pr1]
        by simp
      from Suc.IH [of "delay * 2" ?pr2] obtain m where m: "m \<le> retries"
        "length (observed (snd (retryWithBackoff (timed sleep) (observe obs fn) retries
            (delay * 2) ?pr2))) = length (observed ?pr2) + Suc m"
        "waited (snd (retryWithBackoff (timed sleep) (observe obs fn) retries
            (delay * 2) ?pr2)) = waited ?pr2 @ map (\<lambda>i. (delay * 2) * 2 ^ i) [0..<m]"
        by blast
      show ?thesis
        using m unfolding step
        by (intro exI [of _ "Suc m"]) (simp add: timed_def map_backoff_Suc del: upt_Suc)
    qed
  qed
qed

lemma retry_0: "retryWithBackoff sleep fn 0 delay w = fn w"
  by (subst retryWithBackoff.simps) (simp split: prod.splits sum.splits)

lemma retry_Suc:
  "retryWithBackoff sleep fn (Suc n) delay w =
     (case fst (fn w) of
        Inr v \<Rightarrow> fn w
      | Inl err \<Rightarrow>
          if name err = ''AbortError'' then fn w
          else if transient err
            then retryWithBackoff sleep fn n (delay * 2) (sleep delay (snd (fn w)))
          else fn w)"
  by (subst retryWithBackoff.simps)
    (simp add: transient_def mentions_def Let_def split: prod.splits sum.splits)

lemma retry_probe_transparent:
  "fst (retryWithBackoff (timed sleep) (observe obs fn) retries delay pr)
     = fst (retryWithBackoff sleep fn retries delay (inner pr))
   \<and> inner (snd (retryWithBackoff (timed sleep) (observe obs fn) retries delay pr))
     = snd (retryWithBackoff sleep fn retries delay (inner pr))"
proof (induction retries arbitrary: delay pr)
  case 0
  show ?case
    by (simp add: retry_0 observe_sel)
next
  case (Suc retries)
  show ?case
    by (simp add: retry_Suc observe_sel timed_sel Suc.IH split: sum.splits)
qed

lemma retry_always_failing:
  assumes "\<And>u. \<exists>err u'. fn u = (Inl err, u') \<and> transient err \<and> name err \<noteq> ''AbortError''"
  shows "length (observed (snd (retryWithBackoff (timed sleep) (observe obs fn) retries delay pr)))
           = length (observed pr) + retries + 1
         \<and> (\<exists>err. fst (retryWithBackoff (timed sleep) (observe obs fn) retries delay pr) = Inl err)"
proof (induction retries arbitrary: delay pr)
  case 0
  from assms [of "inner pr"] show ?case
    by (auto simp: retry_0 observe_sel)
next
  case (Suc retries)
  from assms [of "inner pr"] show ?case
    by (auto simp: retry_Suc observe_sel timed_sel Suc.IH)
qed

lemmas string_eval = toLowerCase_def lowerChar_def mentions_def transient_def newError_def

text \<open>
  C3 (as amended). When the operation fails with an error whose message mentions one of
  the four markers and whose name is not \<open>AbortError\<close>, and retries remain, it is waited
  for and run again with one retry less and the delay doubled; an operation that keeps
  failing so is executed until the budget is exhausted, \<open>retries + 1\<close> times, and the
  error is returned. When it fails with an error whose message mentions none of the
  markers, that error is returned at the first failure: one execution and no wait.
\<close>

theorem retryWithBackoff_classification:
  "(fn w = (Inl err, w') \<and> transient err \<and> name err \<noteq> ''AbortError'' \<and> 0 < retries
      \<longrightarrow> retryWithBackoff sleep fn retries delay w
            = retryWithBackoff sleep fn (retries - 1) (delay * 2) (sleep delay w'))
   \<and> ((\<forall>u. \<exists>e u'. fn u = (Inl e, u') \<and> transient e \<and> name e \<noteq> ''AbortError'')
      \<longrightarrow> length (observed (retryRun sleep fn retries delay w)) = retries + 1
          \<and> (\<exists>e. fst (retryWithBackoff sleep fn retries delay w) = Inl e))
   \<and> (fn w = (Inl err, w') \<and> \<not> transient err
      \<longrightarrow> retryWithBackoff sleep fn retries delay w = (Inl err, w')
          \<and> length (observed (retryRun sleep fn retries delay w)) = 1
          \<and> waited (retryRun sleep fn retries delay w) = [])"
proof (intro conjI impI)
  assume "fn w = (Inl err, w') \<and> transient err \<and> name err \<noteq> ''AbortError'' \<and> 0 < retries"
  then show "retryWithBackoff sleep fn retries delay w
      = retryWithBackoff sleep fn (retries - 1) (delay * 2) (sleep delay w')"
    by (simp add: retry_again)
next
  assume a: "\<forall>u. \<exists>e u'. fn u = (Inl e, u') \<and> transient e \<and> name e \<noteq> ''AbortError''"
  then have a': "\<And>u. \<exists>e u'. fn u = (Inl e, u') \<and> transient e \<and> name e \<noteq> ''AbortError''"
    by blast
  note run = retry_always_failing [where fn = fn and pr = "probe0 w" and obs = "\<lambda>w. ()"
      and sleep = sleep and retries = retries and delay = delay, OF a']
  show "length (observed (retryRun sleep fn retries delay w)) = retries + 1"
    using run by (simp add: retryRun_def counted_def probe0_def)
  show "\<exists>e. fst (retryWithBackoff sleep fn retries delay w) = Inl e"
    using run
      retry_probe_transparent [where pr = "probe0 w" and obs = "\<lambda>w. ()" and fn = fn
        and sleep = sleep and retries = retries and delay = delay]
    by (auto simp: probe0_def)
next
  assume a: "fn w = (Inl err, w') \<and> \<not> transient err"
  then show "retryWithBackoff sleep fn retries delay w = (Inl err, w')"
    by (simp add: retry_rethrown)
  from a have ob: "counted fn (probe0 w)
      = (Inl err, (probe0 w)\<lparr>inner := w', observed := [()]\<rparr>)"
    by (simp add: counted_def observe_def probe0_def)
  from a have run: "retryWithBackoff (timed sleep) (counted fn) retries delay (probe0 w)
      = (Inl err, (probe0 w)\<lparr>inner := w', observed := [()]\<rparr>)"
    by (intro retry_rethrown [where fn = "counted fn" and w = "probe0 w", OF ob]) simp
  show "length (observed (retryRun sleep fn retries delay w)) = 1"
    by (simp add: retryRun_def run)
  show "waited (retryRun sleep fn retries delay w) = []"
    unfolding retryRun_def run by (simp add: probe0_def)
qed

lemma alwaysQuota_fails:
  "\<forall>u. \<exists>e u'. alwaysQuota u = (Inl e, u') \<and> transient e \<and> name e \<noteq> ''AbortError''"
  by (simp add: alwaysQuota_def string_eval)

theorem retryWithBackoff_classification_witness:
  "retryWithBackoff noSleep alwaysQuota 3 1000 ()
     = retryWithBackoff noSleep alwaysQuota (3 - 1) (1000 * 2) ()
   \<and> length (observed (retryRun noSleep alwaysQuota 3 1000 ())) = 3 + 1
   \<and> retryWithBackoff noSleep invalidKey 3 1000 () = (Inl (newError ''API key not valid''), ())
   \<and> length (observed (retryRun noSleep invalidKey 3 1000 ())) = 1
   \<and> waited (retryRun noSleep invalidKey 3 1000 ()) = []"
  using
    retryWithBackoff_classification [where fn = alwaysQuota and w = "()" and w' = "()"
      and err = "newError ''Quota exceeded''" and retries = 3 and delay = 1000
      and sleep = noSleep]
    retryWithBackoff_classification [where fn = invalidKey and w = "()" and w' = "()"
      and err = "newError ''API key not valid''" and retries = 3 and delay = 1000
      and sleep = noSleep]
    alwaysQuota_fails
  by (simp add: alwaysQuota_def invalidKey_def string_eval)

text \<open>
  The claim as first stated fails on an error that mentions \<open>quota\<close> and is named
  \<open>AbortError\<close>: with three retries left the operation is executed once.
\<close>

theorem retryWithBackoff_abort_counterexample:
  "transient abortQuotaError
   \<and> fst (abortQuota ()) = Inl abortQuotaError
   \<and> length (observed (retryRun noSleep abortQuota 3 1000 ())) = 1"
  by (simp add: retryRun_def counted_def retry_Suc numeral_3_eq_3 observe_sel
      abortQuota_def abortQuotaError_def string_eval probe0_def)

text \<open>
  C4. In every run of \<open>retryWithBackoff\<close> the operation is executed at most \<open>1 + retries\<close>
  times, each execution but the first follows one wait, and the wait before execution
  \<open>k\<close> (\<open>k \<ge> 2\<close>) is \<open>delay * 2 ^ (k - 2)\<close>: 1000, 2000 and 4000 milliseconds with the
  defaults. Delays are natural numbers here; the source doubles a floating-point number,
  which is exact for every delay a run can reach in practice.
\<close>

theorem retryWithBackoff_backoff:
  "length (observed (retryRun sleep fn retries delay w)) \<le> 1 + retries
   \<and> length (observed (retryRun sleep fn retries delay w))
       = 1 + length (waited (retryRun sleep fn retries delay w))
   \<and> (2 \<le> k \<and> k \<le> length (observed (retryRun sleep fn retries delay w))
      \<longrightarrow> waited (retryRun sleep fn retries delay w) ! (k - 2) = delay * 2 ^ (k - 2))"
proof -
  from retry_probe_shape [where retries = retries and sleep = sleep and fn = fn
      and obs = "\<lambda>w. ()" and delay = delay and pr = "probe0 w"]
  obtain n where n: "n \<le> retries"
    "length (observed (retryRun sleep fn retries delay w)) = Suc n"
    "waited (retryRun sleep fn retries delay w) = map (\<lambda>i. delay * 2 ^ i) [0..<n]"
    by (auto simp: retryRun_def counted_def probe0_def)
  show ?thesis
    using n by (auto simp del: upt_Suc)
qed

lemma alwaysQuota_run:
  "length (observed (retryRun noSleep alwaysQuota 3 1000 ())) = 4"
  by (simp add: retryRun_def counted_def retry_Suc retry_0 numeral_3_eq_3 observe_sel timed_sel
      alwaysQuota_def string_eval probe0_def)

theorem retryWithBackoff_backoff_witness:
  "length (observed (retryRun noSleep alwaysQuota 3 1000 ())) \<le> 1 + 3
   \<and> waited (retryRun noSleep alwaysQuota 3 1000 ()) ! 0 = 1000
   \<and> waited (retryRun noSleep alwaysQuota 3 1000 ()) ! 1 = 2000
   \<and> waited (retryRun noSleep alwaysQuota 3 1000 ()) ! 2 = 4000"
  using
    retryWithBackoff_backoff [where sleep = noSleep and fn = alwaysQuota and retries = 3
      and delay = 1000 and w = "()" and k = 2]
    retryWithBackoff_backoff [where sleep = noSleep and fn = alwaysQuota and retries = 3
      and delay = 1000 and w = "()" and k = 3]
    retryWithBackoff_backoff [where sleep = noSleep and fn = alwaysQuota and retries = 3
      and delay = 1000 and w = "()" and k = 4]
  by (simp add: alwaysQuota_run)

section \<open>Cancellation before dispatch\<close>

lemma makeRequest_aborted:
  "signalAborted signal w \<Longrightarrow> makeRequest signal fn w = (Inl (newError ''Request cancelled''), w)"
  by (simp add: makeRequest_def)

lemma makeRequest_clear:
  "\<not> signalAborted signal w \<Longrightarrow> makeRequest signal fn w = fn w"
  by (simp add: makeRequest_def)

lemma cancelled_not_transient:
  "\<not> transient (newError ''Request cancelled'')"
  "name (newError ''Request cancelled'') \<noteq> ''AbortError''"
  by (simp_all add: string_eval)

lemma retry_cancelled:
  "signalAborted signal w
     \<Longrightarrow> retryWithBackoff sleep (makeRequest signal fn) retries delay w
         = (Inl (newError ''Request cancelled''), w)"
  by (rule retry_rethrown [where err = "newError ''Request cancelled''"])
    (simp_all add: makeRequest_aborted cancelled_not_transient)

lemma signalAborted_simps:
  "signalAborted None w = False"
  "signalAborted (Some flag) w = flag w"
  "signalAborted (probed signal) pr = signalAborted signal (inner pr)"
  by (cases signal; simp add: signalAborted_def probed_def)+

lemma dispatch_only_when_clear:
  "True \<notin> set (observed pr)
     \<Longrightarrow> True \<notin> set (observed (snd (retryWithBackoff (timed sleep)
           (makeRequest (probed (Some flag)) (observe flag fn)) retries delay pr)))"
proof (induction retries arbitrary: delay pr)
  case 0
  then show ?case
    by (cases "flag (inner pr)")
      (simp_all add: retry_0 makeRequest_aborted makeRequest_clear signalAborted_simps observe_sel)
next
  case (Suc retries)
  show ?case
  proof (cases "flag (inner pr)")
    case True
    then show ?thesis
      using Suc.prems by (simp add: retry_cancelled signalAborted_simps)
  next
    case False
    then have mk: "makeRequest (probed (Some flag)) (observe flag fn) pr = observe flag fn pr"
      by (simp add: makeRequest_clear signalAborted_simps)
    have clear: "True \<notin> set (observed (timed sleep delay (snd (observe flag fn pr))))"
      using Suc.prems False by (simp add: timed_sel observe_sel)
    show ?thesis
      using Suc.IH [OF clear] Suc.prems False
      by (simp add: retry_Suc mk observe_sel split: sum.splits)
  qed
qed

text \<open>
  C6. When the signal is aborted at the moment a call would dispatch, \<open>makeRequest\<close> fails
  with the cancellation error and does not run the remote call: the world, and the record
  of executions, are as before. So does a whole sub-call of \<open>analyzeImage\<close> started under an
  aborted signal, and so does a retry: when the signal is aborted during the wait, the
  re-dispatch fails with the cancellation error and nothing more is sent. In any run of a
  retried call, every execution of the remote call started with the flag clear.
\<close>

theorem cancelled_before_dispatch:
  "(flag w \<longrightarrow> makeRequest (Some flag) fn w = (Inl (newError ''Request cancelled''), w))
   \<and> (flag (inner pr) \<longrightarrow> snd (makeRequest (probed (Some flag)) (observe obs fn) pr) = pr)
   \<and> (flag w \<longrightarrow> subCall p (Some flag) req w = (Inl (newError ''Request cancelled''), w))
   \<and> (fn w = (Inl err, w') \<and> \<not> flag w \<and> transient err \<and> name err \<noteq> ''AbortError''
        \<and> 0 < retries \<and> flag (sleep delay w')
      \<longrightarrow> retryWithBackoff sleep (makeRequest (Some flag) fn) retries delay w
            = (Inl (newError ''Request cancelled''), sleep delay w'))
   \<and> (True \<notin> set (observed (snd (retryWithBackoff (timed sleep)
           (makeRequest (probed (Some flag)) (observe flag fn)) retries delay (probe0 w)))))"
proof (intro conjI impI)
  assume "flag w"
  then show "makeRequest (Some flag) fn w = (Inl (newError ''Request cancelled''), w)"
    by (simp add: makeRequest_aborted signalAborted_simps)
next
  assume "flag (inner pr)"
  then show "snd (makeRequest (probed (Some flag)) (observe obs fn) pr) = pr"
    by (simp add: makeRequest_aborted signalAborted_simps)
next
  assume "flag w"
  then show "subCall p (Some flag) req w = (Inl (newError ''Request cancelled''), w)"
    by (simp add: subCall_def retry_cancelled signalAborted_simps)
next
  assume a: "fn w = (Inl err, w') \<and> \<not> flag w \<and> transient err \<and> name err \<noteq> ''AbortError''
        \<and> 0 < retries \<and> flag (sleep delay w')"
  then have first: "makeRequest (Some flag) fn w = (Inl err, w')"
    by (simp add: makeRequest_clear signalAborted_simps)
  from a have "retryWithBackoff sleep (makeRequest (Some flag) fn) retries delay w
      = retryWithBackoff sleep (makeRequest (Some flag) fn) (retries - 1) (delay * 2)
          (sleep delay w')"
    by (intro retry_again [where fn = "makeRequest (Some flag) fn" and w = w, OF first]) simp_all
  also from a have "\<dots> = (Inl (newError ''Request cancelled''), sleep delay w')"
    by (simp add: retry_cancelled signalAborted_simps)
  finally show "retryWithBackoff sleep (makeRequest (Some flag) fn) retries delay w
      = (Inl (newError ''Request cancelled''), sleep delay w')" .
next
  show "True \<notin> set (observed (snd (retryWithBackoff (timed sleep)
      (makeRequest (probed (Some flag)) (observe flag fn)) retries delay (probe0 w))))"
    by (rule dispatch_only_when_clear) (simp add: probe0_def)
qed

theorem cancelled_before_dispatch_witness:
  "makeRequest (Some (simAborted 0)) (simGenerate imageRequest) cancelledSim
     = (Inl (newError ''Request cancelled''), cancelledSim)
   \<and> snd (makeRequest (probed (Some (simAborted 0))) (counted (simGenerate imageRequest))
        (probe0 cancelledSim)) = probe0 cancelledSim
   \<and> subCall simPlatform (Some (simAborted 0)) imageRequest cancelledSim
     = (Inl (newError ''Request cancelled''), cancelledSim)
   \<and> retryWithBackoff abortingSleep
        (makeRequest (Some (simAborted 0)) (simGenerate imageRequest)) 3 1000 (sim0 [])
     = (Inl (newError ''Request cancelled''), abortingSleep 1000 (sim0 []))"
  using
    cancelled_before_dispatch [where flag = "simAborted 0" and w = cancelledSim
      and fn = "simGenerate imageRequest" and pr = "probe0 cancelledSim"
      and obs = "\<lambda>w. ()" and p = simPlatform and req = imageRequest
      and retries = 3 and delay = 1000 and sleep = simSleep]
    cancelled_before_dispatch [where flag = "simAborted 0" and w = "sim0 []"
      and fn = "simGenerate imageRequest" and err = "newError ''503 Service Unavailable''"
      and w' = "sim0 []" and retries = 3 and delay = 1000 and sleep = abortingSleep
      and pr = "probe0 (sim0 [])" and obs = "\<lambda>w. ()" and p = simPlatform
      and req = imageRequest]
  by (simp add: counted_def simAborted_def cancelledSim_def probe0_def simGenerate_def sim0_def
      abortingSleep_def string_eval)

section \<open>The join of the four calls\<close>

lemma firstRejection_cases:
  "(firstRejection order rs = None \<and> (\<forall>i < length rs. rs ! i = None))
   \<or> (\<exists>j e. j < length rs \<and> rs ! j = Some e \<and> firstRejection order rs = Some e)"
proof -
  define P where "P = (\<lambda>i. i < length rs \<and> rs ! i \<noteq> None)"
  define L where "L = order @ [0 ..< length rs]"
  have fr: "firstRejection order rs = (case filter P L of [] \<Rightarrow> None | i # _ \<Rightarrow> rs ! i)"
    by (simp add: firstRejection_def P_def L_def)
  show ?thesis
  proof (cases "filter P L")
    case Nil
    then have "\<forall>i \<in> set L. \<not> P i" by (simp add: filter_empty_conv)
    then have "\<forall>i < length rs. \<not> P i" by (simp add: L_def)
    then have "\<forall>i < length rs. rs ! i = None" by (simp add: P_def)
    with Nil fr show ?thesis by simp
  next
    case (Cons j js)
    then have "j \<in> set (filter P L)" by simp
    then have "P j" by simp
    then obtain e where "j < length rs" "rs ! j = Some e" by (auto simp: P_def)
    with Cons fr show ?thesis by auto
  qed
qed

lemma firstRejection_None:
  "firstRejection order rs = None \<longleftrightarrow> (\<forall>r \<in> set rs. r = None)"
  using firstRejection_cases [of order rs] by (auto simp: in_set_conv_nth)

lemma firstRejection_Some:
  "firstRejection order rs = Some e \<Longrightarrow> Some e \<in> set rs"
  using firstRejection_cases [of order rs] by (auto simp: in_set_conv_nth)

lemma rejection_simps:
  "rejection (Inl e) = Some e" "rejection (Inr v) = None"
  "rejection r = None \<longleftrightarrow> (\<exists>v. r = Inr v)"
  "rejection r = Some e \<longleftrightarrow> r = Inl e"
  by (cases r; simp add: rejection_def)+

text \<open>
  The join resolves exactly when the four calls resolve, and otherwise rejects with the
  error of one of the calls: the one the order of settlement puts first.
\<close>

lemma promiseAll_Inr:
  "promiseAll order a b c d = Inr (x, y, z, u) \<longleftrightarrow> a = Inr x \<and> b = Inr y \<and> c = Inr z \<and> d = Inr u"
proof
  assume all: "a = Inr x \<and> b = Inr y \<and> c = Inr z \<and> d = Inr u"
  then have "firstRejection order [rejection a, rejection b, rejection c, rejection d] = None"
    by (simp add: firstRejection_None rejection_simps)
  with all show "promiseAll order a b c d = Inr (x, y, z, u)"
    by (simp add: promiseAll_def)
next
  assume r: "promiseAll order a b c d = Inr (x, y, z, u)"
  then show "a = Inr x \<and> b = Inr y \<and> c = Inr z \<and> d = Inr u"
    by (auto simp: promiseAll_def split: option.splits sum.splits)
qed

lemma promiseAll_Inl:
  assumes "promiseAll order a b c d = Inl e"
  shows "a = Inl e \<or> b = Inl e \<or> c = Inl e \<or> d = Inl e"
proof (cases "firstRejection order [rejection a, rejection b, rejection c, rejection d]")
  case None
  with assms show ?thesis
    by (auto simp: promiseAll_def split: sum.splits)
next
  case (Some e')
  with assms have "e' = e" by (simp add: promiseAll_def)
  with firstRejection_Some [OF Some]
  have "rejection a = Some e \<or> rejection b = Some e \<or> rejection c = Some e
      \<or> rejection d = Some e"
    by auto
  then show ?thesis
    by (simp add: rejection_simps)
qed

text \<open>
  The join rejects with the error of the call that settled first, when that call failed.
\<close>

lemma promiseAll_first_settled:
  assumes "i < 4" and "[rejection a, rejection b, rejection c, rejection d] ! i = Some e"
  shows "promiseAll (i # rest) a b c d = Inl e"
proof -
  let ?rs = "[rejection a, rejection b, rejection c, rejection d]"
  have "filter (\<lambda>i. i < length ?rs \<and> ?rs ! i \<noteq> None) ((i # rest) @ [0 ..< length ?rs])
      = i # filter (\<lambda>i. i < length ?rs \<and> ?rs ! i \<noteq> None) (rest @ [0 ..< length ?rs])"
    using assms by simp
  then have "firstRejection (i # rest) ?rs = Some e"
    using assms(2) by (simp add: firstRejection_def)
  then show ?thesis
    by (simp add: promiseAll_def)
qed

text \<open>
  Two calls fail: the error of the join is that of the one that failed first in time.
\<close>

lemma promiseAll_in_time:
  "promiseAll [3, 0] (Inl e1) (Inr y) (Inr z) (Inl e4) = (Inl e4 :: jserror + (nat \<times> nat \<times> nat \<times> nat))"
  "promiseAll [0, 3] (Inl e1) (Inr y) (Inr z) (Inl e4) = (Inl e1 :: jserror + (nat \<times> nat \<times> nat \<times> nat))"
  by (simp_all add: promiseAll_def firstRejection_def rejection_def)

lemma interpretResponses_Inr:
  assumes "interpretResponses p dbg w segResp segUncertResp classResp heatResp = Inr out"
  shows "\<exists>t parsed. responseText classResp = Some t \<and> jsonParse p (trim t) = Some parsed
           \<and> analysis out =
               (if truthy dbg
                then (confidenceCheck (parseFloat p) parsed)\<lparr>timestampBackend := Some (isoNow p w)\<rparr>
                else confidenceCheck (parseFloat p) parsed)"
    and "extractImageFromResponse heatResp ''Heatmap generation failed''
           = Inr (heatmapImageBase64 out)"
    and "segResp = None \<or> segUncertResp = None
           \<Longrightarrow> segmentedImageBase64 out = None \<and> segmentationUncertaintyMapBase64 out = None"
  using assms
  by (auto simp: interpretResponses_def Let_def truthy_def
      split: if_splits option.splits sum.splits)

lemma analyzeImage_Inr:
  assumes "analyzeImage p f fb dbg signal w = (Some (Inr out), w')"
  shows "analyzeImageTry p f fb dbg signal w = (Some (Inr out), w')" and "truthy (apiKey p)"
    and "\<not> signalAborted signal w"
  using assms
  by (auto simp: analyzeImage_def split: if_splits prod.splits sum.splits option.splits)

lemma unlessRefining_truthy:
  "truthy fb \<Longrightarrow> unlessRefining fb call w = (Inr None, w)"
  by (simp add: unlessRefining_def)

lemma analyzeImageTry_Inr:
  assumes "analyzeImageTry p f fb dbg signal w = (Some (Inr out), w')"
  shows "\<exists>part w0 segResp segUncertResp classResp heatResp.
           fileToGenerativePart p f w = (Some part, w0)
           \<and> fst (unlessRefining fb (subCall p signal (segmentationRequest part)) w0)
               = Inr segResp
           \<and> fst (unlessRefining fb (subCall p signal (segmentationUncertaintyRequest part)) w0)
               = Inr segUncertResp
           \<and> fst (subCall p signal (classificationRequest part dbg fb) w0) = Inr classResp
           \<and> fst (subCall p signal (heatmapRequest part fb) w0) = Inr heatResp
           \<and> \<not> signalAborted signal w'
           \<and> interpretResponses p dbg w' segResp segUncertResp classResp heatResp = Inr out"
proof -
  obtain r w0 where read: "fileToGenerativePart p f w = (r, w0)"
    by (cases "fileToGenerativePart p f w")
  with assms obtain part where part: "r = Some part"
    by (cases r) (simp_all add: analyzeImageTry_def)
  obtain s w1 where s: "unlessRefining fb (subCall p signal (segmentationRequest part)) w0 = (s, w1)"
    by (cases "unlessRefining fb (subCall p signal (segmentationRequest part)) w0")
  obtain u w2 where u:
    "unlessRefining fb (subCall p signal (segmentationUncertaintyRequest part)) w0 = (u, w2)"
    by (cases "unlessRefining fb (subCall p signal (segmentationUncertaintyRequest part)) w0")
  obtain c w3 where c: "subCall p signal (classificationRequest part dbg fb) w0 = (c, w3)"
    by (cases "subCall p signal (classificationRequest part dbg fb) w0")
  obtain h w4 where h: "subCall p signal (heatmapRequest part fb) w0 = (h, w4)"
    by (cases "subCall p signal (heatmapRequest part fb) w0")
  obtain order wj where b: "barrier p w0 [w1, w2, w3, w4] = (order, wj)"
    by (cases "barrier p w0 [w1, w2, w3, w4]")
  have run: "analyzeImageTry p f fb dbg signal w =
      (case promiseAll order s u c h of
         Inl e \<Rightarrow> (Some (Inl e), wj)
       | Inr (segResp, segUncertResp, classResp, heatResp) \<Rightarrow>
           if signalAborted signal wj then (Some (Inl (newError ''Request cancelled'')), wj)
           else (Some (interpretResponses p dbg wj segResp segUncertResp classResp heatResp), wj))"
    by (simp add: analyzeImageTry_def read part s u c h b)
  from assms obtain segResp segUncertResp classResp heatResp where
    all: "promiseAll order s u c h = Inr (segResp, segUncertResp, classResp, heatResp)"
    and clear: "\<not> signalAborted signal wj" and w': "w' = wj"
    and i: "interpretResponses p dbg wj segResp segUncertResp classResp heatResp = Inr out"
    unfolding run by (auto split: sum.splits if_splits)
  from all have "s = Inr segResp" "u = Inr segUncertResp" "c = Inr classResp" "h = Inr heatResp"
    by (simp_all add: promiseAll_Inr)
  with read part s u c h clear i w' show ?thesis
    by auto
qed

text \<open>
  The \<open>try\<close> block once the image is encoded, with every \<open>let\<close> opened.
\<close>

lemma analyzeImageTry_unfold:
  assumes "fileToGenerativePart p f w = (Some part, w0)"
  shows "analyzeImageTry p f fb dbg signal w =
     (case promiseAll
             (fst (barrier p w0
                [snd (unlessRefining fb (subCall p signal (segmentationRequest part)) w0),
                 snd (unlessRefining fb (subCall p signal (segmentationUncertaintyRequest part)) w0),
                 snd (subCall p signal (classificationRequest part dbg fb) w0),
                 snd (subCall p signal (heatmapRequest part fb) w0)]))
             (fst (unlessRefining fb (subCall p signal (segmentationRequest part)) w0))
             (fst (unlessRefining fb (subCall p signal (segmentationUncertaintyRequest part)) w0))
             (fst (subCall p signal (classificationRequest part dbg fb) w0))
             (fst (subCall p signal (heatmapRequest part fb) w0)) of
        Inl e \<Rightarrow>
          (Some (Inl e),
           snd (barrier p w0
                [snd (unlessRefining fb (subCall p signal (segmentationRequest part)) w0),
                 snd (unlessRefining fb (subCall p signal (segmentationUncertaintyRequest part)) w0),
                 snd (subCall p signal (classificationRequest part dbg fb) w0),
                 snd (subCall p signal (heatmapRequest part fb) w0)]))
      | Inr (segResp, segUncertResp, classResp, heatResp) \<Rightarrow>
          if signalAborted signal
               (snd (barrier p w0
                [snd (unlessRefining fb (subCall p signal (segmentationRequest part)) w0),
                 snd (unlessRefining fb (subCall p signal (segmentationUncertaintyRequest part)) w0),
                 snd (subCall p signal (classificationRequest part dbg fb) w0),
                 snd (subCall p signal (heatmapRequest part fb) w0)]))
          then (Some (Inl (newError ''Request cancelled'')),
                snd (barrier p w0
                [snd (unlessRefining fb (subCall p signal (segmentationRequest part)) w0),
                 snd (unlessRefining fb (subCall p signal (segmentationUncertaintyRequest part)) w0),
                 snd (subCall p signal (classificationRequest part dbg fb) w0),
                 snd (subCall p signal (heatmapRequest part fb) w0)]))
          else (Some (interpretResponses p dbg
                  (snd (barrier p w0
                [snd (unlessRefining fb (subCall p signal (segmentationRequest part)) w0),
                 snd (unlessRefining fb (subCall p signal (segmentationUncertaintyRequest part)) w0),
                 snd (subCall p signal (classificationRequest part dbg fb) w0),
                 snd (subCall p signal (heatmapRequest part fb) w0)]))
                  segResp segUncertResp classResp heatResp),
                snd (barrier p w0
                [snd (unlessRefining fb (subCall p signal (segmentationRequest part)) w0),
                 snd (unlessRefining fb (subCall p signal (segmentationUncertaintyRequest part)) w0),
                 snd (subCall p signal (classificationRequest part dbg fb) w0),
                 snd (subCall p signal (heatmapRequest part fb) w0)])))"
  using assms by (simp add: analyzeImageTry_def Let_def case_prod_beta)

lemma analyzeImageTry_stalls:
  "fileToGenerativePart p f w = (None, w0)
     \<Longrightarrow> analyzeImageTry p f fb dbg signal w = (None, w0)"
  by (simp add: analyzeImageTry_def)



section \<open>Runs on the simulated platform\<close>

lemmas sim_eval =
  analyzeImage_def analyzeImageTry_def fileToGenerativePart_def subCall_def unlessRefining_def
  retry_Suc retry_0 numeral_3_eq_3 makeRequest_def signalAborted_simps simPlatform_def
  simGenerate_def simSleep_def simBarrier_def sim0_def promiseAll_def firstRejection_def
  rejection_def interpretResponses_def trim_def
  isSpace_def simJson_def confidenceCheck_def CONFIDENCE_THRESHOLD_def simParseFloat_def
  isDigit_def extractImageFromResponse_def firstPart_def truthy_def Let_def string_eval
  decimal_small file1_def imageResponse_def textResponse_def segmentationRequest_def
  segmentationUncertaintyRequest_def classificationRequest_def heatmapRequest_def


lemma sim_sel:
  "aborted simPlatform = simAborted" "aborted cancelPlatform = simAborted"
  "aborted abortedRemote = simAborted"
  "apiKey simPlatform = Some ''key''"
  by (simp_all add: simPlatform_def cancelPlatform_def abortedRemote_def)


lemma img_sel:
  "imageFile img1 = file1" "image_id img1 = ''img-1''"
  "imageFile img2 = file1" "image_id img2 = ''img-2''"
  "imageFile analysed1 = file1" "image_id analysed1 = ''img-1''"
  by (simp_all add: img1_def img2_def analysed1_def)


lemma flag_sel: "\<not> simAborted c (sim0 rs)" "simAborted 0 cancelledSim"
  "\<not> simAborted c (simSleep d (sim0 rs))"
  by (simp_all add: simAborted_def sim0_def cancelledSim_def simSleep_def)

lemma focus_truthy: "truthy (Some focus)"
  by (simp add: truthy_def focus_def)

lemma read_file1: "fileToGenerativePart simPlatform file1 w = (Some part1, w)"
  by (simp add: fileToGenerativePart_def simPlatform_def file1_def part1_def)

lemma classification_reply:
  "fst (subCall simPlatform None (classificationRequest part1 (Some ''img-1'') None)
          (sim0 (scriptFor body))) = Inr (textResponse body)"
  by (simp add: subCall_def retry_Suc numeral_3_eq_3 makeRequest_def signalAborted_simps
      simPlatform_def simGenerate_def sim0_def scriptFor_def classificationRequest_def truthy_def)

lemma simJson_eval:
  "jsonParse simPlatform (trim '' CNV|65%|img-1 '') = Some parsed65"
  "jsonParse simPlatform (trim ''CNV|85%|img-1'') = Some (parsed65\<lparr>confidence := ''85%''\<rparr>)"
  "jsonParse simPlatform (trim ''CNV|70%|img-1'') = Some (parsed65\<lparr>confidence := ''70%''\<rparr>)"
  "jsonParse simPlatform (trim ''CNV|high|img-1'') = Some (parsed65\<lparr>confidence := ''high''\<rparr>)"
  by (simp_all add: simPlatform_def simJson_def trim_def isSpace_def parsed65_def Let_def)

lemma simParseFloat_eval:
  "parseFloat simPlatform ''65%'' = Finite 65" "parseFloat simPlatform ''85%'' = Finite 85"
  "parseFloat simPlatform ''70%'' = Finite 70" "parseFloat simPlatform ''high'' = NaN"
  by (simp_all add: simPlatform_def simParseFloat_def isDigit_def Let_def)

lemma output_sel:
  "processedId (analysis batchOutput) = Some ''img-1''"
  "processedId (analysis crossOutput) = Some ''img-9''"
  "processedId (analysis silentOutput) = None"
  "segmentedImageBase64 batchOutput = Some ''SEG''"
  "segmentedImageBase64 crossOutput = Some ''SEG''"
  "segmentedImageBase64 silentOutput = Some ''SEG''"
  "segmentationUncertaintyMapBase64 batchOutput = Some ''UNC''"
  "segmentationUncertaintyMapBase64 crossOutput = Some ''UNC''"
  "segmentationUncertaintyMapBase64 silentOutput = Some ''UNC''"
  "heatmapImageBase64 batchOutput = ''HEAT''"
  "heatmapImageBase64 crossOutput = ''HEAT''"
  "heatmapImageBase64 silentOutput = ''HEAT''"
  by (simp_all add: batchOutput_def crossOutput_def silentOutput_def parsed65_def
      confidenceCheck_def Let_def)

lemma debug_run:
  "debugRequest simPlatform file1 i (sim0 rs) = (Inr (debugInfo1\<lparr>info_id := i\<rparr>), sim0 rs)"
  "debugRequest cancelPlatform file1 i (sim0 rs) = (Inr (debugInfo1\<lparr>info_id := i\<rparr>), sim0 rs)"
  "debugRequest abortedRemote file1 i (sim0 rs) = (Inr (debugInfo1\<lparr>info_id := i\<rparr>), sim0 rs)"
  by (simp_all add: debugRequest_def awaitFileHash_def simPlatform_def cancelPlatform_def
      abortedRemote_def sim0_def file1_def fileSize_def showInt_def decimal_small decimal_large
      debugInfo1_def)


lemma batch_run:
  "analyzeImage simPlatform file1 None (Some ''img-1'') None (sim0 batchReplies)
     = (Some (Inr batchOutput), sim0 [])"
  by (simp add: sim_eval batchReplies_def scriptFor_def batchOutput_def parsed65_def)

lemma passed_run:
  "analyzeImage simPlatform file1 None (Some ''img-1'') None (sim0 (scriptFor ''CNV|85%|img-1''))
     = (Some (Inr (passed ''85%'')), sim0 [])"
  "analyzeImage simPlatform file1 None (Some ''img-1'') None (sim0 (scriptFor ''CNV|70%|img-1''))
     = (Some (Inr (passed ''70%'')), sim0 [])"
  "analyzeImage simPlatform file1 None (Some ''img-1'') None (sim0 (scriptFor ''CNV|high|img-1''))
     = (Some (Inr (passed ''high'')), sim0 [])"
  by (simp_all add: sim_eval scriptFor_def passed_def parsed65_def)

lemma loop_run:
  "analyzeImage simPlatform file1 None (Some ''img-1'') (Some (simAborted 0))
     (sim0 batchReplies) = (Some (Inr batchOutput), sim0 [])"
  by (simp add: sim_eval simAborted_def batchReplies_def scriptFor_def batchOutput_def
      parsed65_def)

lemma cross_run:
  "analyzeImage simPlatform file1 None (Some ''img-1'') (Some (simAborted 0))
     (sim0 (scriptFor ''CNV|85%|img-9'')) = (Some (Inr crossOutput), sim0 [])"
  "analyzeImage simPlatform file1 None (Some ''img-1'') (Some (simAborted 0))
     (sim0 (scriptFor ''CNV|85%|'')) = (Some (Inr silentOutput), sim0 [])"
  by (simp_all add: sim_eval simAborted_def scriptFor_def crossOutput_def silentOutput_def
      parsed65_def)

lemma refine_run:
  "analyzeImage simPlatform file1 (Some focus) (Some ''img-1'') None (sim0 refineReplies)
     = (Some (Inr refineOutput), sim0 [])"
  by (simp add: sim_eval refineReplies_def refineOutput_def parsed85_def focus_def)


text \<open>
  A batch signal raised during the first wait: the four requests had been sent, each call
  waits once and none sends a second request.
\<close>

lemma cancel_run_log:
  "map prompt (observed (snd (analyzeImage (instrument cancelPlatform) file1 None
       (Some ''img-1'') (probed (Some (simAborted 0))) (probe0 (sim0 [])))))
     = [SegmentationMap, SegmentationUncertaintyMap, Classification (Some ''img-1'') None,
        Heatmap None]"
  "waited (snd (analyzeImage (instrument cancelPlatform) file1 None
       (Some ''img-1'') (probed (Some (simAborted 0))) (probe0 (sim0 []))))
     = [1000, 1000, 1000, 1000]"
  by (simp_all add: sim_eval instrument_def joinProbes_def observe_def timed_def probed_def
      probe0_def cancelPlatform_def simAborted_def abortingSleep_def)

text \<open>
  A batch signal raised while the four requests are served: all four had been sent, and
  the call fails with the cancellation error after the join.
\<close>

lemma raised_in_flight:
  "map prompt (observed (snd (analyzeImage (instrument raisingRemote) file1 None
       (Some ''img-1'') (probed (Some (simAborted 0))) (probe0 (sim0 batchReplies)))))
     = [SegmentationMap, SegmentationUncertaintyMap, Classification (Some ''img-1'') None,
        Heatmap None]"
  "fst (analyzeImage raisingRemote file1 None (Some ''img-1'') (Some (simAborted 0))
       (sim0 batchReplies)) = Some (Inl (newError ''Request cancelled''))"
  by (simp_all add: sim_eval instrument_def joinProbes_def observe_def timed_def probed_def
      probe0_def raisingRemote_def simAborted_def batchReplies_def scriptFor_def)










section \<open>The confidence gate\<close>

lemma includesStr_append: "includesStr (a @ t @ b) t"
proof (induction a)
  case Nil
  show ?case
  proof (cases "t @ b")
    case Nil
    then show ?thesis by simp
  next
    case (Cons c cs)
    then have "prefix t (c # cs)" by (metis prefixI)
    with Cons show ?thesis by simp
  qed
next
  case (Cons x a)
  then show ?case by simp
qed

lemma confidenceCheck_low:
  "numLess (parse (confidence r)) (Finite 70)
     \<Longrightarrow> confidenceCheck parse r =
         r\<lparr>diagnosis := ''Requires Further Review'',
            uncertaintyStatement :=
              ''**Low Confidence ('' @ confidence r @ '')**: Initial finding ''
              @ [CHR 0x27] @ diagnosis r @ [CHR 0x27] @ ''. Requires review. ''
              @ uncertaintyStatement r\<rparr>"
  by (cases "parse (confidence r)")
    (simp_all add: confidenceCheck_def CONFIDENCE_THRESHOLD_def Let_def)

lemma confidenceCheck_high:
  "\<not> numLess (parse (confidence r)) (Finite 70) \<Longrightarrow> confidenceCheck parse r = r"
  by (simp add: confidenceCheck_def CONFIDENCE_THRESHOLD_def Let_def)

text \<open>
  C2. For every parsed classification result \<open>r\<close> and whatever \<open>parseFloat\<close> computes: when
  the confidence parses to a number strictly below 70, the diagnosis becomes
  \<open>Requires Further Review\<close> and the new uncertainty statement contains the original
  diagnosis; when it parses to 70 or more, or to not-a-number, the diagnosis is unchanged,
  in particular for \<open>70%\<close> where that parses to 70. And this is what \<open>analyzeImage\<close> does
  with the classification it receives: whenever it returns a value, the classification call
  resolved to a response whose trimmed text \<open>JSON.parse\<close> read as a result \<open>parsed\<close>, and
  the analysis returned is the confidence check of that \<open>parsed\<close> (with the timestamp when a
  verification id is given); so the returned diagnosis is the sentinel, and the returned
  uncertainty statement contains the diagnosis of \<open>parsed\<close>, when its confidence parses
  below 70, and the returned diagnosis and uncertainty statement are those of \<open>parsed\<close>
  otherwise.
\<close>

theorem confidence_gate:
  "(numLess (parse (confidence r)) (Finite 70)
      \<longrightarrow> diagnosis (confidenceCheck parse r) = ''Requires Further Review''
          \<and> includesStr (uncertaintyStatement (confidenceCheck parse r)) (diagnosis r))
   \<and> (parse (confidence r) = Finite v \<and> 70 \<le> v
      \<longrightarrow> diagnosis (confidenceCheck parse r) = diagnosis r)
   \<and> (parse (confidence r) = NaN \<longrightarrow> diagnosis (confidenceCheck parse r) = diagnosis r)
   \<and> (confidence r = ''70%'' \<and> parse ''70%'' = Finite 70
      \<longrightarrow> diagnosis (confidenceCheck parse r) = diagnosis r)
   \<and> (analyzeImage p f fb dbg signal w = (Some (Inr out), w')
      \<longrightarrow> (\<exists>part w0 classResp t parsed.
            fileToGenerativePart p f w = (Some part, w0)
            \<and> fst (subCall p signal (classificationRequest part dbg fb) w0) = Inr classResp
            \<and> responseText classResp = Some t
            \<and> jsonParse p (trim t) = Some parsed
            \<and> analysis out =
                (if truthy dbg
                 then (confidenceCheck (parseFloat p) parsed)
                        \<lparr>timestampBackend := Some (isoNow p w')\<rparr>
                 else confidenceCheck (parseFloat p) parsed)
            \<and> (numLess (parseFloat p (confidence parsed)) (Finite 70)
                \<longrightarrow> diagnosis (analysis out) = ''Requires Further Review''
                    \<and> includesStr (uncertaintyStatement (analysis out)) (diagnosis parsed))
            \<and> (\<not> numLess (parseFloat p (confidence parsed)) (Finite 70)
                \<longrightarrow> diagnosis (analysis out) = diagnosis parsed
                    \<and> uncertaintyStatement (analysis out) = uncertaintyStatement parsed)))"
proof (intro conjI impI)
  assume low: "numLess (parse (confidence r)) (Finite 70)"
  show "diagnosis (confidenceCheck parse r) = ''Requires Further Review''"
    by (simp add: confidenceCheck_low [where parse = parse and r = r, OF low])
  have "uncertaintyStatement (confidenceCheck parse r)
      = (''**Low Confidence ('' @ confidence r @ '')**: Initial finding '' @ [CHR 0x27])
        @ diagnosis r @ ([CHR 0x27] @ ''. Requires review. '' @ uncertaintyStatement r)"
    by (simp add: confidenceCheck_low [where parse = parse and r = r, OF low])
  then show "includesStr (uncertaintyStatement (confidenceCheck parse r)) (diagnosis r)"
    by (simp only: includesStr_append)
next
  assume "parse (confidence r) = Finite v \<and> 70 \<le> v"
  then show "diagnosis (confidenceCheck parse r) = diagnosis r"
    by (simp add: confidenceCheck_high)
next
  assume "parse (confidence r) = NaN"
  then show "diagnosis (confidenceCheck parse r) = diagnosis r"
    by (simp add: confidenceCheck_high)
next
  assume "confidence r = ''70%'' \<and> parse ''70%'' = Finite 70"
  then show "diagnosis (confidenceCheck parse r) = diagnosis r"
    by (simp add: confidenceCheck_high)
next
  assume run: "analyzeImage p f fb dbg signal w = (Some (Inr out), w')"
  from analyzeImageTry_Inr [OF analyzeImage_Inr(1) [OF run]]
  obtain part w0 segResp segUncertResp classResp heatResp where
    read: "fileToGenerativePart p f w = (Some part, w0)"
    and c: "fst (subCall p signal (classificationRequest part dbg fb) w0) = Inr classResp"
    and i: "interpretResponses p dbg w' segResp segUncertResp classResp heatResp = Inr out"
    by blast
  from interpretResponses_Inr(1) [OF i]
  obtain t parsed where t: "responseText classResp = Some t"
    and parsed: "jsonParse p (trim t) = Some parsed"
    and a: "analysis out =
        (if truthy dbg
         then (confidenceCheck (parseFloat p) parsed)\<lparr>timestampBackend := Some (isoNow p w')\<rparr>
         else confidenceCheck (parseFloat p) parsed)"
    by blast
  have low: "diagnosis (analysis out) = ''Requires Further Review''
      \<and> includesStr (uncertaintyStatement (analysis out)) (diagnosis parsed)"
    if l: "numLess (parseFloat p (confidence parsed)) (Finite 70)"
  proof -
    have "uncertaintyStatement (analysis out)
        = (''**Low Confidence ('' @ confidence parsed @ '')**: Initial finding '' @ [CHR 0x27])
          @ diagnosis parsed
          @ ([CHR 0x27] @ ''. Requires review. '' @ uncertaintyStatement parsed)"
      by (simp add: a confidenceCheck_low [where parse = "parseFloat p" and r = parsed, OF l])
    then have "includesStr (uncertaintyStatement (analysis out)) (diagnosis parsed)"
      by (simp only: includesStr_append)
    moreover have "diagnosis (analysis out) = ''Requires Further Review''"
      by (simp add: a confidenceCheck_low [where parse = "parseFloat p" and r = parsed, OF l])
    ultimately show ?thesis by simp
  qed
  have high: "diagnosis (analysis out) = diagnosis parsed
      \<and> uncertaintyStatement (analysis out) = uncertaintyStatement parsed"
    if "\<not> numLess (parseFloat p (confidence parsed)) (Finite 70)"
    using that by (simp add: a confidenceCheck_high)
  from read c t parsed a low high
  show "\<exists>part w0 classResp t parsed.
      fileToGenerativePart p f w = (Some part, w0)
      \<and> fst (subCall p signal (classificationRequest part dbg fb) w0) = Inr classResp
      \<and> responseText classResp = Some t
      \<and> jsonParse p (trim t) = Some parsed
      \<and> analysis out =
          (if truthy dbg
           then (confidenceCheck (parseFloat p) parsed)\<lparr>timestampBackend := Some (isoNow p w')\<rparr>
           else confidenceCheck (parseFloat p) parsed)
      \<and> (numLess (parseFloat p (confidence parsed)) (Finite 70)
          \<longrightarrow> diagnosis (analysis out) = ''Requires Further Review''
              \<and> includesStr (uncertaintyStatement (analysis out)) (diagnosis parsed))
      \<and> (\<not> numLess (parseFloat p (confidence parsed)) (Finite 70)
          \<longrightarrow> diagnosis (analysis out) = diagnosis parsed
              \<and> uncertaintyStatement (analysis out) = uncertaintyStatement parsed)"
    by blast
qed

theorem confidence_gate_witness:
  "analyzeImage simPlatform file1 None (Some ''img-1'') None (sim0 batchReplies)
     = (Some (Inr batchOutput), sim0 [])
   \<and> diagnosis (analysis batchOutput) = ''Requires Further Review''
   \<and> includesStr (uncertaintyStatement (analysis batchOutput)) ''CNV''
   \<and> analyzeImage simPlatform file1 None (Some ''img-1'') None (sim0 (scriptFor ''CNV|85%|img-1''))
     = (Some (Inr (passed ''85%'')), sim0 [])
   \<and> diagnosis (analysis (passed ''85%'')) = ''CNV''
   \<and> analyzeImage simPlatform file1 None (Some ''img-1'') None (sim0 (scriptFor ''CNV|70%|img-1''))
     = (Some (Inr (passed ''70%'')), sim0 [])
   \<and> diagnosis (analysis (passed ''70%'')) = ''CNV''
   \<and> analyzeImage simPlatform file1 None (Some ''img-1'') None (sim0 (scriptFor ''CNV|high|img-1''))
     = (Some (Inr (passed ''high'')), sim0 [])
   \<and> diagnosis (analysis (passed ''high'')) = ''CNV''"
proof -
  have gate:
    "(numLess (parseFloat simPlatform (confidence parsed)) (Finite 70)
        \<longrightarrow> diagnosis (analysis out) = ''Requires Further Review''
            \<and> includesStr (uncertaintyStatement (analysis out)) (diagnosis parsed))
     \<and> (\<not> numLess (parseFloat simPlatform (confidence parsed)) (Finite 70)
        \<longrightarrow> diagnosis (analysis out) = diagnosis parsed)"
    if run: "analyzeImage simPlatform file1 None (Some ''img-1'') None (sim0 (scriptFor body))
        = (Some (Inr out), sim0 [])"
      and json: "jsonParse simPlatform (trim body) = Some parsed"
    for body out parsed
  proof -
    from confidence_gate [where p = simPlatform and f = file1 and fb = None
        and dbg = "Some ''img-1''" and signal = None and w = "sim0 (scriptFor body)"
        and out = out and w' = "sim0 []" and parse = simParseFloat and r = parsed65 and v = 65]
      run
    obtain part w0 classResp t parsed' where
      read: "fileToGenerativePart simPlatform file1 (sim0 (scriptFor body)) = (Some part, w0)"
      and c: "fst (subCall simPlatform None (classificationRequest part (Some ''img-1'') None) w0)
          = Inr classResp"
      and t: "responseText classResp = Some t"
      and parsed': "jsonParse simPlatform (trim t) = Some parsed'"
      and low: "numLess (parseFloat simPlatform (confidence parsed')) (Finite 70)
          \<longrightarrow> diagnosis (analysis out) = ''Requires Further Review''
              \<and> includesStr (uncertaintyStatement (analysis out)) (diagnosis parsed')"
      and high: "\<not> numLess (parseFloat simPlatform (confidence parsed')) (Finite 70)
          \<longrightarrow> diagnosis (analysis out) = diagnosis parsed'
              \<and> uncertaintyStatement (analysis out) = uncertaintyStatement parsed'"
      by blast
    from read have part: "part = part1" "w0 = sim0 (scriptFor body)"
      by (simp_all add: read_file1)
    from c have "classResp = textResponse body"
      by (simp add: part classification_reply)
    with t have "t = body"
      by (simp add: textResponse_def)
    with parsed' json have "parsed' = parsed"
      by simp
    with low high show ?thesis
      by simp
  qed
  note low = gate [OF batch_run [unfolded batchReplies_def] simJson_eval(1)]
  note p85 = gate [OF passed_run(1) simJson_eval(2)]
  note p70 = gate [OF passed_run(2) simJson_eval(3)]
  note pNaN = gate [OF passed_run(3) simJson_eval(4)]
  have c1: "diagnosis (analysis batchOutput) = ''Requires Further Review''"
    "includesStr (uncertaintyStatement (analysis batchOutput)) ''CNV''"
    using low by (simp_all add: parsed65_def simParseFloat_eval)
  have c2: "diagnosis (analysis (passed ''85%'')) = ''CNV''"
    using p85 by (simp add: parsed65_def simParseFloat_eval)
  have c3: "diagnosis (analysis (passed ''70%'')) = ''CNV''"
    using p70 by (simp add: parsed65_def simParseFloat_eval)
  have c4: "diagnosis (analysis (passed ''high'')) = ''CNV''"
    using pNaN by (simp add: parsed65_def simParseFloat_eval)
  from batch_run passed_run c1 c2 c3 c4 show ?thesis
    by (intro conjI)
qed

section \<open>The request log of an analysis\<close>

lemma chain_transparent:
  "fst (retryWithBackoff (timed sleep) (makeRequest (probed signal) (observe obs fn))
          retries delay pr)
     = fst (retryWithBackoff sleep (makeRequest signal fn) retries delay (inner pr))
   \<and> inner (snd (retryWithBackoff (timed sleep) (makeRequest (probed signal) (observe obs fn))
          retries delay pr))
     = snd (retryWithBackoff sleep (makeRequest signal fn) retries delay (inner pr))"
proof (induction retries arbitrary: delay pr)
  case 0
  show ?case
    by (cases "signalAborted signal (inner pr)")
      (simp_all add: retry_0 makeRequest_aborted makeRequest_clear signalAborted_simps
        observe_sel)
next
  case (Suc retries)
  show ?case
  proof (cases "signalAborted signal (inner pr)")
    case True
    then show ?thesis
      by (simp add: retry_cancelled signalAborted_simps)
  next
    case False
    then have mk: "makeRequest (probed signal) (observe obs fn) pr = observe obs fn pr"
      "makeRequest signal fn (inner pr) = fn (inner pr)"
      by (simp_all add: makeRequest_clear signalAborted_simps)
    show ?thesis
      by (simp add: retry_Suc mk observe_sel timed_sel Suc.IH split: sum.splits)
  qed
qed

lemma chain_log:
  "\<exists>n. observed (snd (retryWithBackoff (timed sleep)
            (makeRequest signal (observe (\<lambda>w. x) fn)) retries delay pr))
          = observed pr @ replicate n x
       \<and> ((\<exists>v. fst (retryWithBackoff (timed sleep)
              (makeRequest signal (observe (\<lambda>w. x) fn)) retries delay pr) = Inr v)
            \<or> \<not> signalAborted signal pr \<longrightarrow> 0 < n)"
proof (induction retries arbitrary: delay pr)
  case 0
  show ?case
  proof (cases "signalAborted signal pr")
    case True
    then show ?thesis
      by (intro exI [of _ 0]) (simp add: retry_0 makeRequest_aborted)
  next
    case False
    then show ?thesis
      by (intro exI [of _ 1]) (simp add: retry_0 makeRequest_clear observe_sel)
  qed
next
  case (Suc retries)
  show ?case
  proof (cases "signalAborted signal pr")
    case True
    then show ?thesis
      by (intro exI [of _ 0]) (simp add: retry_cancelled)
  next
    case False
    then have mk: "makeRequest signal (observe (\<lambda>w. x) fn) pr = observe (\<lambda>w. x) fn pr"
      by (simp add: makeRequest_clear)
    let ?pr1 = "snd (observe (\<lambda>w. x) fn pr)"
    let ?again = "retryWithBackoff (timed sleep) (makeRequest signal (observe (\<lambda>w. x) fn))
        retries (delay * 2) (timed sleep delay ?pr1)"
    let ?run = "retryWithBackoff (timed sleep) (makeRequest signal (observe (\<lambda>w. x) fn))
        (Suc retries) delay pr"
    have "?run = observe (\<lambda>w. x) fn pr \<or> ?run = ?again"
      by (simp add: retry_Suc mk split: sum.splits)
    then show ?thesis
    proof
      assume "?run = observe (\<lambda>w. x) fn pr"
      then show ?thesis
        by (intro exI [of _ 1]) (simp add: observe_sel)
    next
      assume run: "?run = ?again"
      from Suc.IH [of "delay * 2" "timed sleep delay ?pr1"]
      obtain m where "observed (snd ?again) = observed (timed sleep delay ?pr1) @ replicate m x"
        by blast
      then have "observed (snd ?run) = observed pr @ replicate (Suc m) x"
        by (simp add: run timed_sel observe_sel)
      then show ?thesis
        by (intro exI [of _ "Suc m"]) simp
    qed
  qed
qed

lemma subCall_instrument:
  "subCall (instrument p) signal req =
     retryWithBackoff (timed (setTimeout p))
       (makeRequest signal (observe (\<lambda>w. req) (generateContent p req))) 3 1000"
  by (simp add: subCall_def instrument_def)

lemma subCall_log:
  "\<exists>n. observed (snd (subCall (instrument p) signal req pr)) = observed pr @ replicate n req
       \<and> ((\<exists>v. fst (subCall (instrument p) signal req pr) = Inr v)
            \<or> \<not> signalAborted signal pr \<longrightarrow> 0 < n)"
  unfolding subCall_instrument by (rule chain_log)

lemma subCall_transparent:
  "fst (subCall (instrument p) (probed signal) req pr) = fst (subCall p signal req (inner pr))"
  "inner (snd (subCall (instrument p) (probed signal) req pr))
     = snd (subCall p signal req (inner pr))"
  unfolding subCall_instrument by (simp_all add: subCall_def chain_transparent)

lemma fileToGenerativePart_instrument:
  "fst (fileToGenerativePart (instrument p) f pr) = fst (fileToGenerativePart p f (inner pr))"
  "inner (snd (fileToGenerativePart (instrument p) f pr))
     = snd (fileToGenerativePart p f (inner pr))"
  "observed (snd (fileToGenerativePart (instrument p) f pr)) = observed pr"
  by (simp_all add: fileToGenerativePart_def instrument_def Let_def split: prod.splits)

lemma barrier_instrument:
  "fst (barrier (instrument p) pr0 prs) = fst (barrier p (inner pr0) (map inner prs))"
  "inner (snd (barrier (instrument p) pr0 prs)) = snd (barrier p (inner pr0) (map inner prs))"
  "observed (snd (barrier (instrument p) pr0 prs))
     = observed pr0 @ concat (map (\<lambda>pr. drop (length (observed pr0)) (observed pr)) prs)"
  by (simp_all add: instrument_def joinProbes_def split: prod.splits)

lemma instrument_sel:
  "apiKey (instrument p) = apiKey p"
  "jsonParse (instrument p) = jsonParse p"
  "parseFloat (instrument p) = parseFloat p"
  "isoNow (instrument p) pr = isoNow p (inner pr)"
  by (simp_all add: instrument_def)

lemma interpretResponses_instrument:
  "interpretResponses (instrument p) dbg pr s u c h = interpretResponses p dbg (inner pr) s u c h"
  unfolding interpretResponses_def instrument_sel by (rule refl)

lemma unlessRefining_sel:
  "fst (unlessRefining fb call w)
     = (if truthy fb then Inr None else map_sum id Some (fst (call w)))"
  "snd (unlessRefining fb call w) = (if truthy fb then w else snd (call w))"
  by (simp_all add: unlessRefining_def split: prod.splits sum.splits)

lemma analyzeImageTry_transparent:
  "fst (analyzeImageTry (instrument p) f fb dbg (probed signal) pr)
     = fst (analyzeImageTry p f fb dbg signal (inner pr))
   \<and> inner (snd (analyzeImageTry (instrument p) f fb dbg (probed signal) pr))
     = snd (analyzeImageTry p f fb dbg signal (inner pr))"
proof -
  obtain r w0 where read: "fileToGenerativePart p f (inner pr) = (r, w0)"
    by (cases "fileToGenerativePart p f (inner pr)")
  obtain r' pr0 where read': "fileToGenerativePart (instrument p) f pr = (r', pr0)"
    by (cases "fileToGenerativePart (instrument p) f pr")
  from fileToGenerativePart_instrument(1,2) [of p f pr] read read'
  have same: "r' = r" "inner pr0 = w0" by simp_all
  show ?thesis
  proof (cases r)
    case None
    with read read' same show ?thesis
      by (simp add: analyzeImageTry_stalls)
  next
    case (Some part)
    with read read' same show ?thesis
      by (simp add: analyzeImageTry_unfold [where part = part] unlessRefining_sel
          subCall_transparent barrier_instrument interpretResponses_instrument
          signalAborted_simps
          split: sum.splits prod.splits)
  qed
qed

lemma analyzeImage_transparent:
  "fst (analyzeImage (instrument p) f fb dbg (probed signal) pr)
     = fst (analyzeImage p f fb dbg signal (inner pr))
   \<and> inner (snd (analyzeImage (instrument p) f fb dbg (probed signal) pr))
     = snd (analyzeImage p f fb dbg signal (inner pr))"
proof -
  have key: "apiKey (instrument p) = apiKey p" by (simp add: instrument_def)
  show ?thesis
    using analyzeImageTry_transparent [of p f fb dbg signal pr]
    by (auto simp: analyzeImage_def key signalAborted_simps case_prod_beta
        split: sum.splits option.splits)
qed

lemma unlessRefining_log:
  "\<exists>n. observed (snd (unlessRefining fb (subCall (instrument p) signal req) pr))
          = observed pr @ replicate n req
       \<and> (truthy fb \<longrightarrow> n = 0)
       \<and> (\<not> truthy fb \<and> \<not> signalAborted signal pr \<longrightarrow> 0 < n)"
proof (cases "truthy fb")
  case True
  then show ?thesis
    by (intro exI [of _ 0]) (simp add: unlessRefining_truthy)
next
  case False
  from subCall_log [of p signal req pr]
  obtain n where "observed (snd (subCall (instrument p) signal req pr))
      = observed pr @ replicate n req"
    "\<not> signalAborted signal pr \<longrightarrow> 0 < n"
    by blast
  with False show ?thesis
    by (intro exI [of _ n]) (simp add: unlessRefining_sel)
qed

text \<open>
  Once the image is encoded: in refinement mode no segmentation request is sent, and when
  the signal is clear as the calls are created, each call that is not skipped sends its
  request at least once, whatever happens afterwards.
\<close>

lemma analyzeImageTry_fan_out:
  assumes read: "fileToGenerativePart (instrument p) f pr = (Some part, pr0)"
  shows "\<exists>n1 n2 n3 n4.
     observed (snd (analyzeImageTry (instrument p) f fb dbg signal pr))
       = observed pr @ replicate n1 (segmentationRequest part)
         @ replicate n2 (segmentationUncertaintyRequest part)
         @ replicate n3 (classificationRequest part dbg fb)
         @ replicate n4 (heatmapRequest part fb)
     \<and> (truthy fb \<longrightarrow> n1 = 0 \<and> n2 = 0)
     \<and> (\<not> signalAborted signal pr0
          \<longrightarrow> 0 < n3 \<and> 0 < n4 \<and> (\<not> truthy fb \<longrightarrow> 0 < n1 \<and> 0 < n2))"
proof -
  from read have pr0: "observed pr0 = observed pr"
    using fileToGenerativePart_instrument(3) [of p f pr] by simp
  let ?s = "unlessRefining fb (subCall (instrument p) signal (segmentationRequest part)) pr0"
  let ?u = "unlessRefining fb (subCall (instrument p) signal
      (segmentationUncertaintyRequest part)) pr0"
  let ?c = "subCall (instrument p) signal (classificationRequest part dbg fb) pr0"
  let ?h = "subCall (instrument p) signal (heatmapRequest part fb) pr0"
  let ?b = "barrier (instrument p) pr0 [snd ?s, snd ?u, snd ?c, snd ?h]"
  from unlessRefining_log [of fb p signal "segmentationRequest part" pr0]
  obtain n1 where n1: "observed (snd ?s) = observed pr0 @ replicate n1 (segmentationRequest part)"
    "truthy fb \<longrightarrow> n1 = 0" "\<not> truthy fb \<and> \<not> signalAborted signal pr0 \<longrightarrow> 0 < n1"
    by blast
  from unlessRefining_log [of fb p signal "segmentationUncertaintyRequest part" pr0]
  obtain n2 where n2:
    "observed (snd ?u) = observed pr0 @ replicate n2 (segmentationUncertaintyRequest part)"
    "truthy fb \<longrightarrow> n2 = 0" "\<not> truthy fb \<and> \<not> signalAborted signal pr0 \<longrightarrow> 0 < n2"
    by blast
  from subCall_log [of p signal "classificationRequest part dbg fb" pr0]
  obtain n3 where n3:
    "observed (snd ?c) = observed pr0 @ replicate n3 (classificationRequest part dbg fb)"
    "\<not> signalAborted signal pr0 \<longrightarrow> 0 < n3"
    by blast
  from subCall_log [of p signal "heatmapRequest part fb" pr0]
  obtain n4 where n4:
    "observed (snd ?h) = observed pr0 @ replicate n4 (heatmapRequest part fb)"
    "\<not> signalAborted signal pr0 \<longrightarrow> 0 < n4"
    by blast
  have "snd (analyzeImageTry (instrument p) f fb dbg signal pr) = snd ?b"
    by (simp add: analyzeImageTry_unfold [OF read] split: sum.splits prod.splits)
  moreover have "observed (snd ?b)
      = observed pr0 @ replicate n1 (segmentationRequest part)
        @ replicate n2 (segmentationUncertaintyRequest part)
        @ replicate n3 (classificationRequest part dbg fb)
        @ replicate n4 (heatmapRequest part fb)"
    by (simp add: barrier_instrument(3) n1(1) n2(1) n3(1) n4(1))
  ultimately have "observed (snd (analyzeImageTry (instrument p) f fb dbg signal pr))
      = observed pr @ replicate n1 (segmentationRequest part)
        @ replicate n2 (segmentationUncertaintyRequest part)
        @ replicate n3 (classificationRequest part dbg fb)
        @ replicate n4 (heatmapRequest part fb)"
    by (simp add: pr0)
  with n1(2,3) n2(2,3) n3(2) n4(2) show ?thesis
    by blast
qed

lemma analyzeImageTry_refinement_log:
  assumes "truthy fb"
  shows "\<exists>n1 n2 part.
     observed (snd (analyzeImageTry (instrument p) f fb dbg signal pr))
       = observed pr @ replicate n1 (classificationRequest part dbg fb)
         @ replicate n2 (heatmapRequest part fb)
     \<and> ((\<exists>out. fst (analyzeImageTry (instrument p) f fb dbg signal pr) = Some (Inr out))
          \<or> (\<exists>part' pr0. fileToGenerativePart (instrument p) f pr = (Some part', pr0)
                \<and> \<not> signalAborted signal pr0)
        \<longrightarrow> 0 < n1 \<and> 0 < n2)"
proof -
  obtain r pr0 where read: "fileToGenerativePart (instrument p) f pr = (r, pr0)"
    by (cases "fileToGenerativePart (instrument p) f pr")
  then have pr0: "observed pr0 = observed pr"
    using fileToGenerativePart_instrument(3) [of p f pr] by simp
  show ?thesis
  proof (cases r)
    case None
    with read have "analyzeImageTry (instrument p) f fb dbg signal pr = (None, pr0)"
      by (simp add: analyzeImageTry_stalls)
    with read None pr0 show ?thesis
      by (intro exI [of _ 0]) simp
  next
    case (Some part)
    let ?creq = "classificationRequest part dbg fb"
    let ?hreq = "heatmapRequest part fb"
    obtain c pr3 where c: "subCall (instrument p) signal ?creq pr0 = (c, pr3)"
      by (cases "subCall (instrument p) signal ?creq pr0")
    obtain h pr4 where h: "subCall (instrument p) signal ?hreq pr0 = (h, pr4)"
      by (cases "subCall (instrument p) signal ?hreq pr0")
    obtain order prj where b: "barrier (instrument p) pr0 [pr0, pr0, pr3, pr4] = (order, prj)"
      by (cases "barrier (instrument p) pr0 [pr0, pr0, pr3, pr4]")
    from subCall_log [of p signal ?creq pr0] c
    obtain n1 where n1: "observed pr3 = observed pr0 @ replicate n1 ?creq"
      "(\<exists>v. c = Inr v) \<or> \<not> signalAborted signal pr0 \<longrightarrow> 0 < n1"
      by auto
    from subCall_log [of p signal ?hreq pr0] h
    obtain n2 where n2: "observed pr4 = observed pr0 @ replicate n2 ?hreq"
      "(\<exists>v. h = Inr v) \<or> \<not> signalAborted signal pr0 \<longrightarrow> 0 < n2"
      by auto
    have run: "analyzeImageTry (instrument p) f fb dbg signal pr =
        (case promiseAll order (Inr None) (Inr None) c h of
           Inl e \<Rightarrow> (Some (Inl e), prj)
         | Inr (segResp, segUncertResp, classResp, heatResp) \<Rightarrow>
             if signalAborted signal prj then (Some (Inl (newError ''Request cancelled'')), prj)
             else (Some (interpretResponses (instrument p) dbg prj segResp segUncertResp classResp
                      heatResp), prj))"
      using assms read Some
      by (simp add: analyzeImageTry_def Let_def unlessRefining_truthy c h b)
    then have snd_run: "snd (analyzeImageTry (instrument p) f fb dbg signal pr) = prj"
      by (simp split: sum.splits prod.splits)
    have ok: "(\<exists>v. c = Inr v) \<and> (\<exists>v. h = Inr v)"
      if "fst (analyzeImageTry (instrument p) f fb dbg signal pr) = Some (Inr out)" for out
    proof -
      let ?none = "Inr None :: jserror + response option"
      from that obtain x where "promiseAll order ?none ?none c h = Inr x"
        unfolding run by (cases "promiseAll order ?none ?none c h") auto
      then show ?thesis
        by (cases x) (auto simp: promiseAll_Inr)
    qed
    from barrier_instrument(3) [of p pr0 "[pr0, pr0, pr3, pr4]"] b
    have "observed prj = observed pr0 @ replicate n1 ?creq @ replicate n2 ?hreq"
      by (simp add: n1(1) n2(1))
    then have obs: "observed prj = observed pr @ replicate n1 ?creq @ replicate n2 ?hreq"
      by (simp add: pr0)
    have pos: "(\<exists>out. fst (analyzeImageTry (instrument p) f fb dbg signal pr) = Some (Inr out))
          \<or> (\<exists>part' pr0. fileToGenerativePart (instrument p) f pr = (Some part', pr0)
                \<and> \<not> signalAborted signal pr0)
        \<longrightarrow> 0 < n1 \<and> 0 < n2"
      using n1(2) n2(2) ok read by auto
    show ?thesis
      unfolding snd_run using obs pos by blast
  qed
qed

lemma analyzeImage_refinement_log:
  assumes "truthy fb"
  shows "\<exists>n1 n2 part.
     observed (snd (analyzeImage (instrument p) f fb dbg signal pr))
       = observed pr @ replicate n1 (classificationRequest part dbg fb)
         @ replicate n2 (heatmapRequest part fb)
     \<and> ((\<exists>out. fst (analyzeImage (instrument p) f fb dbg signal pr) = Some (Inr out))
          \<or> (truthy (apiKey p) \<and> \<not> signalAborted signal pr
              \<and> (\<exists>part' pr0. fileToGenerativePart (instrument p) f pr = (Some part', pr0)
                    \<and> \<not> signalAborted signal pr0))
        \<longrightarrow> 0 < n1 \<and> 0 < n2)"
proof -
  have key: "apiKey (instrument p) = apiKey p" by (simp add: instrument_def)
  show ?thesis
  proof (cases "truthy (apiKey p) \<and> \<not> signalAborted signal pr")
    case False
    then have "\<exists>e. analyzeImage (instrument p) f fb dbg signal pr = (Some (Inl e), pr)"
      by (auto simp: analyzeImage_def key)
    with False show ?thesis
      by (intro exI [of _ 0]) auto
  next
    case True
    then have run: "analyzeImage (instrument p) f fb dbg signal pr =
        (case analyzeImageTry (instrument p) f fb dbg signal pr of
           (None, w') \<Rightarrow> (None, w')
         | (Some (Inl err), w') \<Rightarrow> (Some (Inl (newError (parseApiError (ErrorValue err)))), w')
         | (Some (Inr out), w') \<Rightarrow> (Some (Inr out), w'))"
      by (simp add: analyzeImage_def key)
    have s: "snd (analyzeImage (instrument p) f fb dbg signal pr)
        = snd (analyzeImageTry (instrument p) f fb dbg signal pr)"
      unfolding run by (simp split: prod.splits sum.splits option.splits)
    have r: "fst (analyzeImageTry (instrument p) f fb dbg signal pr) = Some (Inr out)"
      if "fst (analyzeImage (instrument p) f fb dbg signal pr) = Some (Inr out)" for out
      using that unfolding run by (simp split: prod.splits sum.splits option.splits)
    from analyzeImageTry_refinement_log [OF assms, of p f dbg signal pr] show ?thesis
      unfolding s using r by blast
  qed
qed

lemma request_prompts:
  "truthy fb \<Longrightarrow> prompt (classificationRequest part dbg fb) = Classification dbg fb"
  "truthy fb \<Longrightarrow> prompt (heatmapRequest part fb) = Heatmap fb"
  by (simp_all add: classificationRequest_def heatmapRequest_def)

lemma submitted_text_truthy: "truthy (Some (trim t)) \<Longrightarrow> truthy (Some t)"
  by (auto simp: truthy_def trim_def)

text \<open>
  The refinement form calls the handler with a non-empty text, or not at all.
\<close>

lemma handleRefineSubmit_supplies:
  "handleRefineSubmit p i t s = handleRefineAnalysis p i t s \<and> truthy (Some t)
   \<or> handleRefineSubmit p i t s = s"
  using submitted_text_truthy [of t] by (auto simp: handleRefineSubmit_def)

text \<open>
  C7 (as amended). Refinement text is supplied when it is a non-empty string, which is the
  only refinement text the program passes (\<open>handleRefineSubmit\<close>). For every call of
  \<open>analyzeImage\<close> with such text: each of the two segmentation calls resolves to absence at
  once, and the only requests that reach the remote model are classification and heatmap
  requests carrying that text, so no segmentation-map or segmentation-uncertainty-map
  request is dispatched. When the credential is present, the signal is not aborted when
  the call starts, the image is encoded and the signal is not aborted when the encoding
  settles, both a classification and a heatmap request are dispatched; so they are in every
  call that returns a value. A returned value has no segmentation and no
  segmentation-uncertainty payload; its analysis is the checked parse of the response of
  the classification call and its heatmap payload is the non-empty image of the response
  of the heatmap call.
\<close>

theorem refinement_skips_segmentation:
  "truthy fb \<longrightarrow>
     unlessRefining fb call w = (Inr None, w)
     \<and> (\<forall>req \<in> set (observed (snd (analyzeImage (instrument p) f fb dbg (probed signal)
                    (probe0 w)))).
         prompt req = Classification dbg fb \<or> prompt req = Heatmap fb)
     \<and> ((truthy (apiKey p) \<and> \<not> signalAborted signal w
           \<and> fileToGenerativePart p f w = (Some part, wr) \<and> \<not> signalAborted signal wr)
          \<or> (\<exists>res. fst (analyzeImage p f fb dbg signal w) = Some (Inr res))
        \<longrightarrow> (\<exists>req \<in> set (observed (snd (analyzeImage (instrument p) f fb dbg (probed signal)
                    (probe0 w)))).
               prompt req = Classification dbg fb)
            \<and> (\<exists>req \<in> set (observed (snd (analyzeImage (instrument p) f fb dbg (probed signal)
                    (probe0 w)))).
               prompt req = Heatmap fb))
     \<and> (analyzeImage p f fb dbg signal w = (Some (Inr out), w')
        \<longrightarrow> segmentedImageBase64 out = None \<and> segmentationUncertaintyMapBase64 out = None
            \<and> heatmapImageBase64 out \<noteq> []
            \<and> (\<exists>image wd classResp heatResp t parsed.
                  fileToGenerativePart p f w = (Some image, wd)
                  \<and> fst (subCall p signal (classificationRequest image dbg fb) wd)
                      = Inr classResp
                  \<and> responseText classResp = Some t
                  \<and> jsonParse p (trim t) = Some parsed
                  \<and> analysis out =
                      (if truthy dbg
                       then (confidenceCheck (parseFloat p) parsed)
                              \<lparr>timestampBackend := Some (isoNow p w')\<rparr>
                       else confidenceCheck (parseFloat p) parsed)
                  \<and> fst (subCall p signal (heatmapRequest image fb) wd) = Inr heatResp
                  \<and> extractImageFromResponse heatResp ''Heatmap generation failed''
                      = Inr (heatmapImageBase64 out)))"
proof (intro impI conjI)
  assume fb: "truthy fb"
  show "unlessRefining fb call w = (Inr None, w)"
    using fb by (rule unlessRefining_truthy)
  let ?sig = "probed signal :: (('a, request) probe \<Rightarrow> bool) option"
  let ?run = "analyzeImage (instrument p) f fb dbg ?sig (probe0 w)"
  from analyzeImage_refinement_log [OF fb, of p f dbg ?sig "probe0 w"]
  obtain n1 n2 image where raw: "observed (snd ?run)
       = observed (probe0 w) @ replicate n1 (classificationRequest image dbg fb)
         @ replicate n2 (heatmapRequest image fb)
     \<and> ((\<exists>out. fst ?run = Some (Inr out))
          \<or> (truthy (apiKey p) \<and> \<not> signalAborted ?sig (probe0 w)
              \<and> (\<exists>part' pr0. fileToGenerativePart (instrument p) f (probe0 w) = (Some part', pr0)
                    \<and> \<not> signalAborted ?sig pr0))
          \<longrightarrow> 0 < n1 \<and> 0 < n2)"
    by blast
  from raw have log:
    "observed (snd ?run)
       = replicate n1 (classificationRequest image dbg fb)
         @ replicate n2 (heatmapRequest image fb)"
    by (simp add: probe0_def)
  from raw have pos: "(\<exists>out. fst ?run = Some (Inr out))
          \<or> (truthy (apiKey p) \<and> \<not> signalAborted ?sig (probe0 w)
              \<and> (\<exists>part' pr0. fileToGenerativePart (instrument p) f (probe0 w) = (Some part', pr0)
                    \<and> \<not> signalAborted ?sig pr0))
          \<longrightarrow> 0 < n1 \<and> 0 < n2"
    by blast
  show "\<forall>req \<in> set (observed (snd ?run)).
      prompt req = Classification dbg fb \<or> prompt req = Heatmap fb"
    unfolding log using fb by (auto simp: request_prompts)
  {
    assume a: "(truthy (apiKey p) \<and> \<not> signalAborted signal w
           \<and> fileToGenerativePart p f w = (Some part, wr) \<and> \<not> signalAborted signal wr)
          \<or> (\<exists>res. fst (analyzeImage p f fb dbg signal w) = Some (Inr res))"
    have same: "fst ?run = fst (analyzeImage p f fb dbg signal w)"
      using analyzeImage_transparent [of p f fb dbg signal "probe0 w"]
      by (simp add: probe0_def)
    have read: "\<exists>part' pr0. fileToGenerativePart (instrument p) f (probe0 w) = (Some part', pr0)
        \<and> \<not> signalAborted ?sig pr0"
      if r: "fileToGenerativePart p f w = (Some part, wr)" and clear: "\<not> signalAborted signal wr"
    proof -
      obtain r' pr0 where i: "fileToGenerativePart (instrument p) f (probe0 w) = (r', pr0)"
        by (cases "fileToGenerativePart (instrument p) f (probe0 w)")
      with fileToGenerativePart_instrument(1,2) [of p f "probe0 w"] r
      have "r' = Some part" "inner pr0 = wr"
        by (simp_all add: probe0_def)
      with i clear show ?thesis
        by (auto simp: signalAborted_simps)
    qed
    have start: "\<not> signalAborted ?sig (probe0 w)" if "\<not> signalAborted signal w"
      using that by (simp add: signalAborted_simps probe0_def)
    from a same read start pos have "0 < n1 \<and> 0 < n2"
      by metis
    then show "\<exists>req \<in> set (observed (snd ?run)). prompt req = Classification dbg fb"
      "\<exists>req \<in> set (observed (snd ?run)). prompt req = Heatmap fb"
      unfolding log using fb by (auto simp: request_prompts)
  }
  {
    assume run: "analyzeImage p f fb dbg signal w = (Some (Inr out), w')"
    from analyzeImageTry_Inr [OF analyzeImage_Inr(1) [OF run]]
    obtain image wd segResp segUncertResp classResp heatResp where
      read: "fileToGenerativePart p f w = (Some image, wd)"
      and s: "fst (unlessRefining fb (subCall p signal (segmentationRequest image)) wd)
          = Inr segResp"
      and c: "fst (subCall p signal (classificationRequest image dbg fb) wd) = Inr classResp"
      and h: "fst (subCall p signal (heatmapRequest image fb) wd) = Inr heatResp"
      and i: "interpretResponses p dbg w' segResp segUncertResp classResp heatResp = Inr out"
      by blast
    from s fb have none: "segResp = None"
      by (simp add: unlessRefining_truthy)
    from interpretResponses_Inr(3) [OF i] none
    show "segmentedImageBase64 out = None" "segmentationUncertaintyMapBase64 out = None"
      by simp_all
    from interpretResponses_Inr(2) [OF i]
    have heat: "extractImageFromResponse heatResp ''Heatmap generation failed''
        = Inr (heatmapImageBase64 out)" .
    then show "heatmapImageBase64 out \<noteq> []"
      by (auto simp: extractImageFromResponse_def split: option.splits part.splits if_splits)
    from interpretResponses_Inr(1) [OF i]
    obtain t parsed where "responseText classResp = Some t"
      "jsonParse p (trim t) = Some parsed"
      "analysis out =
        (if truthy dbg
         then (confidenceCheck (parseFloat p) parsed)\<lparr>timestampBackend := Some (isoNow p w')\<rparr>
         else confidenceCheck (parseFloat p) parsed)"
      by blast
    with read c h heat
    show "\<exists>image wd classResp heatResp t parsed.
        fileToGenerativePart p f w = (Some image, wd)
        \<and> fst (subCall p signal (classificationRequest image dbg fb) wd) = Inr classResp
        \<and> responseText classResp = Some t
        \<and> jsonParse p (trim t) = Some parsed
        \<and> analysis out =
            (if truthy dbg
             then (confidenceCheck (parseFloat p) parsed)\<lparr>timestampBackend := Some (isoNow p w')\<rparr>
             else confidenceCheck (parseFloat p) parsed)
        \<and> fst (subCall p signal (heatmapRequest image fb) wd) = Inr heatResp
        \<and> extractImageFromResponse heatResp ''Heatmap generation failed''
            = Inr (heatmapImageBase64 out)"
      by blast
  }
qed

theorem refinement_skips_segmentation_witness:
  "set (map prompt (observed (snd (analyzeImage (instrument simPlatform) file1 (Some focus)
       (Some ''img-1'') (probed None) (probe0 (sim0 refineReplies))))))
     = {Classification (Some ''img-1'') (Some focus), Heatmap (Some focus)}
   \<and> unlessRefining (Some focus) (subCall simPlatform None (segmentationRequest part1))
        (sim0 refineReplies) = (Inr None, sim0 refineReplies)
   \<and> analyzeImage simPlatform file1 (Some focus) (Some ''img-1'') None (sim0 refineReplies)
     = (Some (Inr refineOutput), sim0 [])
   \<and> segmentedImageBase64 refineOutput = None
   \<and> segmentationUncertaintyMapBase64 refineOutput = None
   \<and> heatmapImageBase64 refineOutput \<noteq> []"
proof -
  note t =
    refinement_skips_segmentation [where fb = "Some focus" and p = simPlatform and f = file1
      and dbg = "Some ''img-1''" and signal = None and w = "sim0 refineReplies"
      and out = refineOutput and w' = "sim0 []" and part = part1 and wr = "sim0 refineReplies"
      and call = "subCall simPlatform None (segmentationRequest part1)"]
  let ?log = "observed (snd (analyzeImage (instrument simPlatform) file1 (Some focus)
       (Some ''img-1'') (probed None) (probe0 (sim0 refineReplies))))"
  from t have only: "\<forall>req \<in> set ?log.
      prompt req = Classification (Some ''img-1'') (Some focus)
      \<or> prompt req = Heatmap (Some focus)"
    by (simp add: focus_truthy)
  from t have both: "(\<exists>req \<in> set ?log. prompt req = Classification (Some ''img-1'') (Some focus))
      \<and> (\<exists>req \<in> set ?log. prompt req = Heatmap (Some focus))"
    by (simp add: focus_truthy sim_sel signalAborted_simps read_file1)
      (simp add: truthy_def)
  from both obtain rc rh where "rc \<in> set ?log"
    "prompt rc = Classification (Some ''img-1'') (Some focus)"
    "rh \<in> set ?log" "prompt rh = Heatmap (Some focus)"
    by blast
  then have "Classification (Some ''img-1'') (Some focus) \<in> prompt ` set ?log"
    "Heatmap (Some focus) \<in> prompt ` set ?log"
    by (metis imageI)+
  moreover from only have "prompt ` set ?log
      \<subseteq> {Classification (Some ''img-1'') (Some focus), Heatmap (Some focus)}"
    by auto
  ultimately have c1: "set (map prompt ?log)
      = {Classification (Some ''img-1'') (Some focus), Heatmap (Some focus)}"
    by auto
  from t have c2: "unlessRefining (Some focus) (subCall simPlatform None (segmentationRequest part1))
      (sim0 refineReplies) = (Inr None, sim0 refineReplies)"
    by (simp add: focus_truthy)
  from t have c3: "segmentedImageBase64 refineOutput = None"
    "segmentationUncertaintyMapBase64 refineOutput = None"
    "heatmapImageBase64 refineOutput \<noteq> []"
    by (simp_all add: focus_truthy refine_run)
  from c1 c2 refine_run c3 show ?thesis
    by (intro conjI)
qed

text \<open>
  The claim as first stated fails when the credential is absent: refinement text is
  supplied, the call fails before the image is read, and no request reaches the remote
  model, so no classification and no heatmap call is executed. It fails when the image
  cannot be read: the encoding never settles and nothing is dispatched. And it fails for
  a caller that passes a signal already aborted: the call fails with the cancellation
  error and nothing is dispatched.
\<close>

theorem refinement_without_credential_counterexample:
  "truthy (Some focus)
   \<and> fst (analyzeImage noKeyPlatform file1 (Some focus) (Some ''img-1'') None
        (sim0 refineReplies))
     = Some (Inl (newError ''API Key Not Found. Please configure API_KEY.''))
   \<and> observed (snd (analyzeImage (instrument noKeyPlatform) file1 (Some focus) (Some ''img-1'')
        (probed None) (probe0 (sim0 refineReplies)))) = []
   \<and> fst (analyzeImage unreadablePlatform file1 (Some focus) (Some ''img-1'') None
        (sim0 refineReplies)) = None
   \<and> observed (snd (analyzeImage (instrument unreadablePlatform) file1 (Some focus)
        (Some ''img-1'') (probed None) (probe0 (sim0 refineReplies)))) = []
   \<and> fst (analyzeImage simPlatform file1 (Some focus) (Some ''img-1'') (Some (simAborted 0))
        cancelledSim) = Some (Inl (newError ''Request cancelled''))
   \<and> observed (snd (analyzeImage (instrument simPlatform) file1 (Some focus) (Some ''img-1'')
        (probed (Some (simAborted 0))) (probe0 cancelledSim))) = []"
  by (simp add: analyzeImage_def analyzeImageTry_def fileToGenerativePart_def instrument_def
      noKeyPlatform_def unreadablePlatform_def simPlatform_def truthy_def focus_def probe0_def
      signalAborted_simps probed_def simAborted_def cancelledSim_def)

section \<open>The batch loop\<close>




lemma analysisLoop_stalled:
  assumes "\<not> aborted p c w"
    and "debugRequest p (imageFile img) (image_id img) w = (Inr info, wd)"
    and "analyzeImage p (imageFile img) None (Some (image_id img)) (Some (aborted p c)) wd
          = (None, w')"
  shows "analysisLoop p c (img # rest) (app, w) = Stalled (app, w')"
  using assms by simp

lemma verifyMapping_no_hash:
  "verifyMapping p img rid None \<longleftrightarrow> \<not> (truthy rid \<and> rid \<noteq> Some (image_id img))"
  by (simp add: verifyMapping_def truthy_def)

lemma analysisLoop_success:
  assumes "\<not> aborted p c w"
    and "debugRequest p (imageFile img) (image_id img) w = (Inr info, wd)"
    and "analyzeImage p (imageFile img) None (Some (image_id img)) (Some (aborted p c)) wd
          = (Some (Inr out), w')"
  shows "analysisLoop p c (img # rest) (app, w) =
     analysisLoop p c rest
       (app\<lparr>images :=
          map (\<lambda>x. if image_id x \<noteq> image_id img then x
                   else x\<lparr>status := Success,
                          mappingStatus :=
                            (if truthy (processedId (analysis out))
                                \<and> processedId (analysis out) \<noteq> Some (image_id img)
                             then Mismatch else Verified),
                          result := Some (analysis out),
                          segmentedImageUrl :=
                            (if truthy (segmentedImageBase64 out)
                             then Some (dataUrl (the (segmentedImageBase64 out)))
                             else segmentedImageUrl x),
                          heatmapImageUrl := Some (dataUrl (heatmapImageBase64 out)),
                          segmentationUncertaintyMapUrl :=
                            (if truthy (segmentationUncertaintyMapBase64 out)
                             then Some (dataUrl (the (segmentationUncertaintyMapBase64 out)))
                             else segmentationUncertaintyMapUrl x),
                          error := None\<rparr>) (images app)\<rparr>, w')"
proof -
  have m: "(if verifyMapping p img (processedId (analysis out)) None then Verified else Mismatch)
      = (if truthy (processedId (analysis out))
            \<and> processedId (analysis out) \<noteq> Some (image_id img)
         then Mismatch else Verified)"
    by (simp add: verifyMapping_no_hash)
  have "applySuccess img out
          (if truthy (processedId (analysis out))
              \<and> processedId (analysis out) \<noteq> Some (image_id img)
           then Mismatch else Verified)
      = (\<lambda>x. if image_id x \<noteq> image_id img then x
              else x\<lparr>status := Success,
                     mappingStatus :=
                       (if truthy (processedId (analysis out))
                           \<and> processedId (analysis out) \<noteq> Some (image_id img)
                        then Mismatch else Verified),
                     result := Some (analysis out),
                     segmentedImageUrl :=
                       (if truthy (segmentedImageBase64 out)
                        then Some (dataUrl (the (segmentedImageBase64 out)))
                        else segmentedImageUrl x),
                     heatmapImageUrl := Some (dataUrl (heatmapImageBase64 out)),
                     segmentationUncertaintyMapUrl :=
                       (if truthy (segmentationUncertaintyMapBase64 out)
                        then Some (dataUrl (the (segmentationUncertaintyMapBase64 out)))
                        else segmentationUncertaintyMapUrl x),
                     error := None\<rparr>)"
    by (rule ext) (simp add: applySuccess_def)
  with assms m show ?thesis
    by (simp add: setImages_def Let_def)
qed




text \<open>
  C9. The loop calls the verifier with no backend hash. Without a hash the verifier
  accepts exactly when the echoed id is absent, empty or equal to the item id, whatever
  the platform's digest and the item's file and stored hash are: the comparison of hashes
  is not reached. So when the round trip of an item succeeds, the collection after it is
  the collection before it with every item of that id updated, its mapping status being
  \<open>Mismatch\<close> when the echoed \<open>processedId\<close> is non-empty and differs from the item id, and
  \<open>Verified\<close> otherwise; the mapping status of the other items is kept.
\<close>

theorem batch_mapping_status:
  "(verifyMapping p img rid None \<longleftrightarrow> \<not> (truthy rid \<and> rid \<noteq> Some (image_id img)))
   \<and> verifyMapping p img rid None = verifyMapping p' (img\<lparr>imageFile := f', hash := h'\<rparr>) rid None
   \<and> (\<not> aborted p c w
      \<and> debugRequest p (imageFile img) (image_id img) w = (Inr info, wd)
      \<and> analyzeImage p (imageFile img) None (Some (image_id img)) (Some (aborted p c)) wd
          = (Some (Inr out), w')
      \<longrightarrow> analysisLoop p c (img # rest) (app, w)
          = analysisLoop p c rest
              (app\<lparr>images :=
                 map (\<lambda>x. if image_id x \<noteq> image_id img then x
                          else x\<lparr>status := Success,
                                 mappingStatus :=
                                   (if truthy (processedId (analysis out))
                                       \<and> processedId (analysis out) \<noteq> Some (image_id img)
                                    then Mismatch else Verified),
                                 result := Some (analysis out),
                                 segmentedImageUrl :=
                                   (if truthy (segmentedImageBase64 out)
                                    then Some (dataUrl (the (segmentedImageBase64 out)))
                                    else segmentedImageUrl x),
                                 heatmapImageUrl := Some (dataUrl (heatmapImageBase64 out)),
                                 segmentationUncertaintyMapUrl :=
                                   (if truthy (segmentationUncertaintyMapBase64 out)
                                    then Some (dataUrl (the (segmentationUncertaintyMapBase64 out)))
                                    else segmentationUncertaintyMapUrl x),
                                 error := None\<rparr>) (images app)\<rparr>, w'))
   \<and> mappingStatus (applySuccess img out m x)
       = (if image_id x = image_id img then m else mappingStatus x)"
proof (intro conjI impI)
  show "verifyMapping p img rid None \<longleftrightarrow> \<not> (truthy rid \<and> rid \<noteq> Some (image_id img))"
    by (rule verifyMapping_no_hash)
  show "verifyMapping p img rid None
      = verifyMapping p' (img\<lparr>imageFile := f', hash := h'\<rparr>) rid None"
    by (simp add: verifyMapping_no_hash)
  show "mappingStatus (applySuccess img out m x)
      = (if image_id x = image_id img then m else mappingStatus x)"
    by (simp add: applySuccess_def)
next
  assume a: "\<not> aborted p c w
      \<and> debugRequest p (imageFile img) (image_id img) w = (Inr info, wd)
      \<and> analyzeImage p (imageFile img) None (Some (image_id img)) (Some (aborted p c)) wd
          = (Some (Inr out), w')"
  then show "analysisLoop p c (img # rest) (app, w)
      = analysisLoop p c rest
          (app\<lparr>images :=
             map (\<lambda>x. if image_id x \<noteq> image_id img then x
                      else x\<lparr>status := Success,
                             mappingStatus :=
                               (if truthy (processedId (analysis out))
                                   \<and> processedId (analysis out) \<noteq> Some (image_id img)
                                then Mismatch else Verified),
                             result := Some (analysis out),
                             segmentedImageUrl :=
                               (if truthy (segmentedImageBase64 out)
                                then Some (dataUrl (the (segmentedImageBase64 out)))
                                else segmentedImageUrl x),
                             heatmapImageUrl := Some (dataUrl (heatmapImageBase64 out)),
                             segmentationUncertaintyMapUrl :=
                               (if truthy (segmentationUncertaintyMapBase64 out)
                                then Some (dataUrl (the (segmentationUncertaintyMapBase64 out)))
                                else segmentationUncertaintyMapUrl x),
                             error := None\<rparr>) (images app)\<rparr>, w')"
    by (intro analysisLoop_success [where info = info and wd = wd]) simp_all
qed

theorem batch_mapping_status_witness:
  "verifyMapping simPlatform img1 (Some ''img-1'') None
   \<and> \<not> verifyMapping simPlatform img1 (Some ''img-9'') None
   \<and> analysisLoop simPlatform 0 [img1] (app1, sim0 batchReplies)
     = Completed (app1\<lparr>images := [analysed1, img2]\<rparr>, sim0 [])
   \<and> analysisLoop simPlatform 0 [img1] (app1, sim0 (scriptFor ''CNV|85%|img-9''))
     = Completed
         (app1\<lparr>images := [analysed1\<lparr>mappingStatus := Mismatch,
                                      result := Some (analysis crossOutput)\<rparr>, img2]\<rparr>, sim0 [])
   \<and> analysisLoop simPlatform 0 [img1] (app1, sim0 (scriptFor ''CNV|85%|''))
     = Completed
         (app1\<lparr>images := [analysed1\<lparr>mappingStatus := Verified,
                                      result := Some (analysis silentOutput)\<rparr>, img2]\<rparr>, sim0 [])"
proof -
  note same =
    batch_mapping_status [where p = simPlatform and p' = simPlatform and img = img1
      and rid = "Some ''img-1''" and f' = file1 and h' = None and c = 0
      and w = "sim0 batchReplies" and info = "debugInfo1\<lparr>info_id := ''img-1''\<rparr>"
      and wd = "sim0 batchReplies" and out = batchOutput and w' = "sim0 []" and rest = "[]"
      and app = app1 and m = Verified and x = img1]
  note differs =
    batch_mapping_status [where p = simPlatform and p' = simPlatform and img = img1
      and rid = "Some ''img-9''" and f' = file1 and h' = None and c = 0
      and w = "sim0 (scriptFor ''CNV|85%|img-9'')"
      and info = "debugInfo1\<lparr>info_id := ''img-1''\<rparr>"
      and wd = "sim0 (scriptFor ''CNV|85%|img-9'')" and out = crossOutput and w' = "sim0 []"
      and rest = "[]" and app = app1 and m = Mismatch and x = img1]
  note absent =
    batch_mapping_status [where p = simPlatform and p' = simPlatform and img = img1
      and rid = None and f' = file1 and h' = None and c = 0
      and w = "sim0 (scriptFor ''CNV|85%|'')"
      and info = "debugInfo1\<lparr>info_id := ''img-1''\<rparr>"
      and wd = "sim0 (scriptFor ''CNV|85%|'')" and out = silentOutput and w' = "sim0 []"
      and rest = "[]" and app = app1 and m = Verified and x = img1]
  have c1: "verifyMapping simPlatform img1 (Some ''img-1'') None"
    using same by (simp add: img_sel truthy_def)
  have c2: "\<not> verifyMapping simPlatform img1 (Some ''img-9'') None"
    using differs by (simp add: img_sel truthy_def)
  have c3: "analysisLoop simPlatform 0 [img1] (app1, sim0 batchReplies)
      = Completed (app1\<lparr>images := [analysed1, img2]\<rparr>, sim0 [])"
    using same
    by (simp add: sim_sel img_sel flag_sel debug_run loop_run output_sel truthy_def app1_def
        del: analysisLoop.simps(2))
      (simp add: analysed1_def img1_def img2_def dataUrl_def)
  have c4: "analysisLoop simPlatform 0 [img1] (app1, sim0 (scriptFor ''CNV|85%|img-9''))
      = Completed
         (app1\<lparr>images := [analysed1\<lparr>mappingStatus := Mismatch,
                                      result := Some (analysis crossOutput)\<rparr>, img2]\<rparr>, sim0 [])"
    using differs
    by (simp add: sim_sel img_sel flag_sel debug_run cross_run output_sel truthy_def app1_def
        del: analysisLoop.simps(2))
      (simp add: analysed1_def img1_def img2_def dataUrl_def)
  have c5: "analysisLoop simPlatform 0 [img1] (app1, sim0 (scriptFor ''CNV|85%|''))
      = Completed
         (app1\<lparr>images := [analysed1\<lparr>mappingStatus := Verified,
                                      result := Some (analysis silentOutput)\<rparr>, img2]\<rparr>, sim0 [])"
    using absent
    by (simp add: sim_sel img_sel flag_sel debug_run cross_run output_sel truthy_def app1_def
        del: analysisLoop.simps(2))
      (simp add: analysed1_def img1_def img2_def dataUrl_def)
  from c1 c2 c3 c4 c5 show ?thesis by (intro conjI)
qed

section \<open>Refinement\<close>

lemma handleRefineAnalysis_cases:
  "handleRefineAnalysis p i feedback (app, w) = (app, w)
   \<or> (\<exists>w'. handleRefineAnalysis p i feedback (app, w)
         = (app\<lparr>images := map (refineLoading i) (images app)\<rparr>, w'))
   \<or> (\<exists>res w'. handleRefineAnalysis p i feedback (app, w)
         = (app\<lparr>images := map (refineSuccess i res) (map (refineLoading i) (images app))\<rparr>, w'))
   \<or> (\<exists>err w'. handleRefineAnalysis p i feedback (app, w)
         = (app\<lparr>images := map (applyFailure i err) (map (refineLoading i) (images app))\<rparr>, w'))"
proof (cases "find (\<lambda>img. image_id img = i) (images app)")
  case None
  then show ?thesis by (simp add: handleRefineAnalysis_def)
next
  case (Some target)
  obtain r w' where run:
    "analyzeImage p (imageFile target) (Some feedback) (Some i) None w = (r, w')"
    by (cases "analyzeImage p (imageFile target) (Some feedback) (Some i) None w")
  show ?thesis
  proof (cases r)
    case None
    with Some run have "handleRefineAnalysis p i feedback (app, w)
        = (app\<lparr>images := map (refineLoading i) (images app)\<rparr>, w')"
      by (simp add: handleRefineAnalysis_def setImages_def Let_def)
    then show ?thesis by blast
  next
    case settled: (Some outcome)
    show ?thesis
    proof (cases outcome)
      case (Inl err)
      with Some settled run have "handleRefineAnalysis p i feedback (app, w)
          = (app\<lparr>images := map (applyFailure i err) (map (refineLoading i) (images app))\<rparr>, w')"
        by (simp add: handleRefineAnalysis_def setImages_def Let_def)
      then show ?thesis by blast
    next
      case (Inr res)
      with Some settled run have "handleRefineAnalysis p i feedback (app, w)
          = (app\<lparr>images := map (refineSuccess i res) (map (refineLoading i) (images app))\<rparr>, w')"
        by (simp add: handleRefineAnalysis_def setImages_def Let_def)
      then show ?thesis by blast
    qed
  qed
qed

lemma subCall_ignores_controllers:
  "subCall (p\<lparr>newAbortController := n, abort := a, aborted := b\<rparr>) signal req
     = subCall p signal req"
  by (simp add: subCall_def)

lemma fileToGenerativePart_ignores_controllers:
  "fileToGenerativePart (p\<lparr>newAbortController := n, abort := a, aborted := b\<rparr>) f w
     = fileToGenerativePart p f w"
  by (simp add: fileToGenerativePart_def)

lemma interpretResponses_ignores_controllers:
  "interpretResponses (p\<lparr>newAbortController := n, abort := a, aborted := b\<rparr>) dbg w s u c h
     = interpretResponses p dbg w s u c h"
proof -
  let ?q = "p\<lparr>newAbortController := n, abort := a, aborted := b\<rparr>"
  have sel: "jsonParse ?q = jsonParse p" "parseFloat ?q = parseFloat p" "isoNow ?q = isoNow p"
    by simp_all
  show ?thesis
    unfolding interpretResponses_def sel by (rule refl)
qed

lemma analyzeImage_ignores_controllers:
  "analyzeImage (p\<lparr>newAbortController := n, abort := a, aborted := b\<rparr>) f fb dbg signal w
     = analyzeImage p f fb dbg signal w"
proof -
  let ?q = "p\<lparr>newAbortController := n, abort := a, aborted := b\<rparr>"
  have sel: "apiKey ?q = apiKey p" "barrier ?q = barrier p"
    by simp_all
  show ?thesis
    unfolding analyzeImage_def analyzeImageTry_def subCall_ignores_controllers
      fileToGenerativePart_ignores_controllers interpretResponses_ignores_controllers sel
    by (rule refl)
qed

text \<open>
  C8. A successful refinement of the item \<open>i\<close> changes the collection in the items with
  that id only, and there it sets the status to \<open>Success\<close>, replaces the result and the
  heatmap reference and clears the error; every other field is kept. Whatever the outcome,
  the segmentation and segmentation-uncertainty references of every item and all items
  with another id are unchanged. The reference to the batch controller is unchanged, and
  the handler does not depend on the platform's controller operations: it creates no
  controller, signals none and reads no flag.
\<close>

theorem refinement_frame:
  "(find (\<lambda>x. image_id x = i) (images app) = Some target
      \<and> analyzeImage p (imageFile target) (Some feedback) (Some i) None w = (Some (Inr out), w')
      \<longrightarrow> handleRefineAnalysis p i feedback (app, w)
          = (app\<lparr>images := map (\<lambda>x. if image_id x = i
                                      then x\<lparr>status := Success,
                                             result := Some (analysis out),
                                             heatmapImageUrl :=
                                               Some (dataUrl (heatmapImageBase64 out)),
                                             error := None\<rparr>
                                      else x) (images app)\<rparr>, w'))
   \<and> map segmentedImageUrl (images (fst (handleRefineAnalysis p i feedback (app, w))))
       = map segmentedImageUrl (images app)
   \<and> map segmentationUncertaintyMapUrl (images (fst (handleRefineAnalysis p i feedback (app, w))))
       = map segmentationUncertaintyMapUrl (images app)
   \<and> filter (\<lambda>x. image_id x \<noteq> i) (images (fst (handleRefineAnalysis p i feedback (app, w))))
       = filter (\<lambda>x. image_id x \<noteq> i) (images app)
   \<and> abortControllerRef (fst (handleRefineAnalysis p i feedback (app, w)))
       = abortControllerRef app
   \<and> handleRefineAnalysis (p\<lparr>newAbortController := n, abort := a, aborted := b\<rparr>) i feedback
        (app, w)
       = handleRefineAnalysis p i feedback (app, w)"
proof (intro conjI impI)
  assume h: "find (\<lambda>x. image_id x = i) (images app) = Some target
      \<and> analyzeImage p (imageFile target) (Some feedback) (Some i) None w = (Some (Inr out), w')"
  have "refineSuccess i out (refineLoading i x)
      = (if image_id x = i
         then x\<lparr>status := Success, result := Some (analysis out),
                heatmapImageUrl := Some (dataUrl (heatmapImageBase64 out)), error := None\<rparr>
         else x)" for x
    by (simp add: refineSuccess_def refineLoading_def)
  with h show "handleRefineAnalysis p i feedback (app, w)
      = (app\<lparr>images := map (\<lambda>x. if image_id x = i
                                  then x\<lparr>status := Success,
                                         result := Some (analysis out),
                                         heatmapImageUrl :=
                                           Some (dataUrl (heatmapImageBase64 out)),
                                         error := None\<rparr>
                                  else x) (images app)\<rparr>, w')"
    by (simp add: handleRefineAnalysis_def setImages_def Let_def comp_def)
next
  have seg: "segmentedImageUrl (refineLoading i x) = segmentedImageUrl x"
    "segmentedImageUrl (refineSuccess i res x) = segmentedImageUrl x"
    "segmentedImageUrl (applyFailure i err x) = segmentedImageUrl x" for x res err
    by (simp_all add: refineLoading_def refineSuccess_def applyFailure_def)
  show "map segmentedImageUrl (images (fst (handleRefineAnalysis p i feedback (app, w))))
      = map segmentedImageUrl (images app)"
    using handleRefineAnalysis_cases [of p i feedback app w]
    by (auto simp: comp_def seg)
next
  have unc: "segmentationUncertaintyMapUrl (refineLoading i x) = segmentationUncertaintyMapUrl x"
    "segmentationUncertaintyMapUrl (refineSuccess i res x) = segmentationUncertaintyMapUrl x"
    "segmentationUncertaintyMapUrl (applyFailure i err x) = segmentationUncertaintyMapUrl x"
    for x res err
    by (simp_all add: refineLoading_def refineSuccess_def applyFailure_def)
  show "map segmentationUncertaintyMapUrl
        (images (fst (handleRefineAnalysis p i feedback (app, w))))
      = map segmentationUncertaintyMapUrl (images app)"
    using handleRefineAnalysis_cases [of p i feedback app w]
    by (auto simp: comp_def unc)
next
  have loading: "filter (\<lambda>x. image_id x \<noteq> i) (map (refineLoading i) xs)
      = filter (\<lambda>x. image_id x \<noteq> i) xs" for xs
    by (induction xs) (auto simp: refineLoading_def)
  have other: "filter (\<lambda>x. image_id x \<noteq> i) (map g (map (refineLoading i) xs))
      = filter (\<lambda>x. image_id x \<noteq> i) xs"
    if "\<And>x. image_id (g x) = image_id x" "\<And>x. image_id x \<noteq> i \<Longrightarrow> g x = x" for g xs
    using that by (induction xs) (auto simp: refineLoading_def)
  have s: "filter (\<lambda>x. image_id x \<noteq> i) (map (refineSuccess i res) (map (refineLoading i) xs))
      = filter (\<lambda>x. image_id x \<noteq> i) xs" for res xs
    by (rule other) (simp_all add: refineSuccess_def)
  have f: "filter (\<lambda>x. image_id x \<noteq> i) (map (applyFailure i err) (map (refineLoading i) xs))
      = filter (\<lambda>x. image_id x \<noteq> i) xs" for err xs
    by (rule other) (simp_all add: applyFailure_def)
  show "filter (\<lambda>x. image_id x \<noteq> i) (images (fst (handleRefineAnalysis p i feedback (app, w))))
      = filter (\<lambda>x. image_id x \<noteq> i) (images app)"
    using handleRefineAnalysis_cases [of p i feedback app w]
    by (auto simp: s f loading simp del: map_map)
next
  show "abortControllerRef (fst (handleRefineAnalysis p i feedback (app, w)))
      = abortControllerRef app"
    using handleRefineAnalysis_cases [of p i feedback app w] by auto
next
  show "handleRefineAnalysis (p\<lparr>newAbortController := n, abort := a, aborted := b\<rparr>) i feedback
      (app, w) = handleRefineAnalysis p i feedback (app, w)"
    unfolding handleRefineAnalysis_def analyzeImage_ignores_controllers by (rule refl)
qed

theorem refinement_frame_witness:
  "handleRefineAnalysis simPlatform ''img-1'' focus (app2, sim0 refineReplies)
     = (app2\<lparr>images :=
              [analysed1\<lparr>result := Some parsed85, heatmapImageUrl := Some (dataUrl ''HEAT2'')\<rparr>,
               img2]\<rparr>, sim0 [])
   \<and> segmentedImageUrl (hd (images (fst (handleRefineAnalysis simPlatform ''img-1'' focus
        (app2, sim0 refineReplies))))) = Some (dataUrl ''SEG'')"
  using
    refinement_frame [where i = "''img-1''" and app = app2 and target = analysed1
      and p = simPlatform and feedback = focus and w = "sim0 refineReplies"
      and out = refineOutput and w' = "sim0 []" and n = "newAbortController simPlatform"
      and a = "abort simPlatform" and b = "aborted simPlatform"]
  by (simp add: img_sel refine_run app2_def refineOutput_def)
    (simp add: analysed1_def img1_def img2_def)

text \<open>
  C10. Each state update of a refinement keeps the mapping status of every item: the one
  on entry, the one on success and the one on failure. So after a refinement, successful
  or not, every item has the mapping status it had before.
\<close>

theorem refinement_keeps_mapping_status:
  "mappingStatus (refineLoading i x) = mappingStatus x
   \<and> mappingStatus (refineSuccess i out x) = mappingStatus x
   \<and> mappingStatus (applyFailure i err x) = mappingStatus x
   \<and> map mappingStatus (images (fst (handleRefineAnalysis p i feedback (app, w))))
       = map mappingStatus (images app)"
proof (intro conjI)
  show step: "mappingStatus (refineLoading i x) = mappingStatus x" for x
    by (simp add: refineLoading_def)
  show success: "mappingStatus (refineSuccess i out x) = mappingStatus x" for out x
    by (simp add: refineSuccess_def)
  show failure: "mappingStatus (applyFailure i err x) = mappingStatus x" for err x
    by (simp add: applyFailure_def)
  show "map mappingStatus (images (fst (handleRefineAnalysis p i feedback (app, w))))
      = map mappingStatus (images app)"
    using handleRefineAnalysis_cases [of p i feedback app w]
    by (auto simp: comp_def step success failure)
qed

theorem refinement_keeps_mapping_status_witness:
  "map mappingStatus (images (fst (handleRefineAnalysis simPlatform ''img-1'' focus
      (app2, sim0 refineReplies)))) = [Verified, Unverified]"
  using
    refinement_keeps_mapping_status [where p = simPlatform and i = "''img-1''"
      and feedback = focus and app = app2 and w = "sim0 refineReplies" and x = analysed1
      and out = refineOutput and err = "newError ''Request cancelled''"]
  by (simp add: app2_def analysed1_def img1_def img2_def)

end
